theory Spec2Isabelle
  imports Complex_Main
begin

section \<open>Python values: exceptions, vectors, matrices\<close>

text \<open>
  The module \<open>IfcPython/read_boundaries.py\<close> reads the space boundaries of an IFC file
  and builds FreeCAD document objects for them. Exceptions of the Python code are values
  of \<open>py_error\<close>. Coordinates, distances and areas are Python floats in the source; they
  are idealised as real numbers here, so rounding is not part of the model.
\<close>

datatype py_error =
  RuntimeError | ValueError | AttributeError | IndexError | UnboundLocalError | AssertionError

type_synonym vector = "real \<times> real \<times> real"

text \<open>Line 32: \<open>SCALE = 1000\<close>; line 29: \<open>BREP = False\<close>.\<close>

definition SCALE :: real where
  "SCALE = 1000"

definition BREP :: bool where
  "BREP = False"

text \<open>
  \<open>FreeCAD.Vector\<close>: \<open>v.scale(a, b, c)\<close> multiplies the components, \<open>v.cross(w)\<close> is the
  cross product of \<open>v\<close> with \<open>w\<close> in this order, \<open>v.distanceToPoint(w)\<close> the Euclidean
  distance.
\<close>

fun scale :: "vector \<Rightarrow> real \<Rightarrow> real \<Rightarrow> real \<Rightarrow> vector" where
  "scale (x, y, z) a b c = (x * a, y * b, z * c)"

fun cross :: "vector \<Rightarrow> vector \<Rightarrow> vector" where
  "cross (x1, y1, z1) (x2, y2, z2) =
     (y1 * z2 - z1 * y2, z1 * x2 - x1 * z2, x1 * y2 - y1 * x2)"

fun distanceToPoint :: "vector \<Rightarrow> vector \<Rightarrow> real" where
  "distanceToPoint (x1, y1, z1) (x2, y2, z2) =
     sqrt ((x1 - x2)\<^sup>2 + (y1 - y2)\<^sup>2 + (z1 - z2)\<^sup>2)"

fun vx :: "vector \<Rightarrow> real" where "vx (x, y, z) = x"
fun vy :: "vector \<Rightarrow> real" where "vy (x, y, z) = y"
fun vz :: "vector \<Rightarrow> real" where "vz (x, y, z) = z"

text \<open>
  \<open>FreeCAD.Matrix(a11, a12, a13, a14, a21, ...)\<close> takes its sixteen entries row by row.
\<close>

datatype matrix =
  Matrix real real real real
         real real real real
         real real real real
         real real real real

text \<open>The first three entries of column \<open>j\<close> (counted from 0), and the last row.\<close>

fun column :: "matrix \<Rightarrow> nat \<Rightarrow> vector" where
  "column (Matrix a11 a12 a13 a14 a21 a22 a23 a24 a31 a32 a33 a34 a41 a42 a43 a44) j =
     (if j = 0 then (a11, a21, a31)
      else if j = 1 then (a12, a22, a32)
      else if j = 2 then (a13, a23, a33)
      else (a14, a24, a34))"

fun last_row :: "matrix \<Rightarrow> real \<times> real \<times> real \<times> real" where
  "last_row (Matrix a11 a12 a13 a14 a21 a22 a23 a24 a31 a32 a33 a34 a41 a42 a43 a44) =
     (a41, a42, a43, a44)"

text \<open>
  An \<open>IfcAxis2Placement3D\<close>: \<open>Location\<close> is mandatory, \<open>Axis\<close> and \<open>RefDirection\<close> are
  optional attributes of the schema, and reading \<open>.DirectionRatios\<close> of a missing one
  raises \<open>AttributeError\<close>.
\<close>

record position =
  Location :: vector
  Axis :: "vector option"
  RefDirection :: "vector option"

text \<open>
  Lines 345-362, \<open>get_matrix\<close>. The source reads \<open>RefDirection\<close> first, then \<open>Axis\<close>:
  \<^verbatim>\<open>
    location = FreeCAD.Vector(position.Location.Coordinates).scale(SCALE, SCALE, SCALE)
    v_1 = FreeCAD.Vector(position.RefDirection.DirectionRatios)
    v_3 = FreeCAD.Vector(position.Axis.DirectionRatios)
    v_2 = v_3.cross(v_1)
    matrix = FreeCAD.Matrix(
        v_1.x, v_2.x, v_3.x, location.x,
        v_1.y, v_2.y, v_3.y, location.y,
        v_1.z, v_2.z, v_3.z, location.z,
        0, 0, 0, 1)
  \<close>
\<close>

definition get_matrix :: "position \<Rightarrow> py_error + matrix" where
  "get_matrix position =
     (let location = scale (Location position) SCALE SCALE SCALE in
      case RefDirection position of
        None \<Rightarrow> Inl AttributeError
      | Some v_1 \<Rightarrow>
          (case Axis position of
             None \<Rightarrow> Inl AttributeError
           | Some v_3 \<Rightarrow>
               (let v_2 = cross v_3 v_1 in
                Inr (Matrix
                  (vx v_1) (vx v_2) (vx v_3) (vx location)
                  (vy v_1) (vy v_2) (vy v_3) (vy location)
                  (vz v_1) (vz v_2) (vz v_3) (vz location)
                  0 0 0 1))))"

section \<open>The IFC input and the FreeCAD document\<close>

text \<open>
  What the code reads of the IFC file. An \<open>IfcElement\<close> is used through its \<open>GlobalId\<close>,
  through its IFC class (the name that \<open>is_a()\<close> returns, and the names of the supertypes
  of that class, for which \<open>is_a(name)\<close> is true as well) and through the truth values of
  its inverse attributes \<open>ProvidesBoundaries\<close> and \<open>FillsVoids\<close>. A space boundary names its surface by the entity number of
  \<open>ConnectionGeometry.SurfaceOnRelatingElement\<close>; its \<open>RelatedBuildingElement\<close> is
  optional in the schema.
\<close>

datatype internal_or_external =
  INTERNAL | EXTERNAL | EXTERNAL_EARTH | EXTERNAL_WATER | EXTERNAL_FIRE | NOTDEFINED

record ifc_element =
  ifc_GlobalId :: string
  ifc_class :: string
  ifc_supertypes :: "string list"
  ifc_ProvidesBoundaries :: bool
  FillsVoids :: bool

definition is_a :: "ifc_element \<Rightarrow> string \<Rightarrow> bool" where
  "is_a ifc_product name = (name = ifc_class ifc_product \<or> name \<in> set (ifc_supertypes ifc_product))"

record ifc_rel_space_boundary =
  Name :: string
  ifc_InternalOrExternalBoundary :: internal_or_external
  SurfaceOnRelatingElement :: nat
  ifc_RelatedBuildingElement :: "ifc_element option"

record ifc_space =
  BoundedBy :: "ifc_rel_space_boundary list"

record ifc_file =
  IfcElement :: "ifc_element list"
  IfcSpace :: "ifc_space list"

text \<open>
  A \<open>Part.Shape\<close>, as far as the code reads it: the points of \<open>Shape.Vertexes\<close>, the
  value of \<open>Shape.normalAt(0, 0)\<close>, \<open>Shape.CenterOfMass\<close> and \<open>Shape.Area\<close>.
\<close>

record shape =
  Vertexes :: "vector list"
  normalAt :: vector
  CenterOfMass :: vector
  Shape_Area :: real

text \<open>
  The properties that \<open>RelSpaceBoundary.__init__\<close> (lines 464-509) and \<open>Element.__init__\<close>
  (lines 550-558) add to a document object. Link properties hold object identities (here
  natural numbers) or \<open>None\<close>; link lists hold lists of identities.
\<close>

record boundary =
  RelatingSpace :: "nat option"
  RelatedBuildingElement :: "nat option"
  InternalOrExternalBoundary :: internal_or_external
  CorrespondingBoundary :: "nat option"
  ParentBoundary :: "nat option"
  InnerBoundaries :: "nat list"
  CoplanarWith :: "nat list"
  IsHosted :: bool
  Area :: real
  AreaWithHosted :: real
  Shape :: shape

record element =
  GlobalId :: string
  ProvidesBoundaries :: "nat list"

text \<open>
  The document: one store per kind of object, the member lists of the space groups
  (\<open>space_group.Group\<close>), the members of the groups \<open>SecondLevel\<close> and \<open>Elements\<close>, the
  number of objects created so far (the next fresh identity), and what was printed.
\<close>

record document =
  boundaries :: "nat \<Rightarrow> boundary"
  elements :: "nat \<Rightarrow> element"
  Group :: "nat \<Rightarrow> nat list"
  group_2nd :: "nat list"
  elements_group :: "nat list"
  object_count :: nat
  console :: "string list"

text \<open>
  A call that mutates the document returns the new document, or the exception together
  with the document as it was when the exception was raised.
\<close>

type_synonym 'a result = "(py_error \<times> document) + 'a"

definition print :: "document \<Rightarrow> string \<Rightarrow> document" where
  "print doc msg = doc\<lparr>console := console doc @ [msg]\<rparr>"

text \<open>The document a call leaves behind, whether it returns or raises.\<close>

definition document_of :: "document result \<Rightarrow> document" where
  "document_of r = (case r of Inl (e, doc) \<Rightarrow> doc | Inr doc \<Rightarrow> doc)"

section \<open>Area including hosted boundaries\<close>

text \<open>
  Lines 516-522, \<open>recompute_area_with_hosted\<close>:
  \<^verbatim>\<open>
    area = obj.Area
    for boundary in obj.InnerBoundaries:
        area = area + boundary.Area
    return area
  \<close>
\<close>

definition recompute_area_with_hosted :: "document \<Rightarrow> nat \<Rightarrow> real" where
  "recompute_area_with_hosted doc obj =
     foldl (\<lambda>area boundary. area + Area (boundaries doc boundary))
       (Area (boundaries doc obj)) (InnerBoundaries (boundaries doc obj))"

text \<open>
  Lines 511-514, \<open>RelSpaceBoundary.onChanged\<close>: FreeCAD calls it after a property of the
  object has been assigned. The assignment to \<open>AreaWithHosted\<close> inside it notifies the
  handler again, with a property name it ignores.
\<close>

definition onChanged :: "document \<Rightarrow> nat \<Rightarrow> string \<Rightarrow> document" where
  "onChanged doc obj prop =
     (if prop = ''InnerBoundaries''
      then doc\<lparr>boundaries := (boundaries doc)
             (obj := (boundaries doc obj)\<lparr>AreaWithHosted := recompute_area_with_hosted doc obj\<rparr>)\<rparr>
      else doc)"

text \<open>Assigning a property of a boundary object: the store is updated, then the handler runs.\<close>

definition set_CorrespondingBoundary :: "document \<Rightarrow> nat \<Rightarrow> nat option \<Rightarrow> document" where
  "set_CorrespondingBoundary doc obj v =
     onChanged (doc\<lparr>boundaries := (boundaries doc)
         (obj := (boundaries doc obj)\<lparr>CorrespondingBoundary := v\<rparr>)\<rparr>)
       obj ''CorrespondingBoundary''"

definition set_ParentBoundary :: "document \<Rightarrow> nat \<Rightarrow> nat option \<Rightarrow> document" where
  "set_ParentBoundary doc obj v =
     onChanged (doc\<lparr>boundaries := (boundaries doc)
         (obj := (boundaries doc obj)\<lparr>ParentBoundary := v\<rparr>)\<rparr>)
       obj ''ParentBoundary''"

definition set_InnerBoundaries :: "document \<Rightarrow> nat \<Rightarrow> nat list \<Rightarrow> document" where
  "set_InnerBoundaries doc obj v =
     onChanged (doc\<lparr>boundaries := (boundaries doc)
         (obj := (boundaries doc obj)\<lparr>InnerBoundaries := v\<rparr>)\<rparr>)
       obj ''InnerBoundaries''"

definition set_CoplanarWith :: "document \<Rightarrow> nat \<Rightarrow> nat list \<Rightarrow> document" where
  "set_CoplanarWith doc obj v =
     onChanged (doc\<lparr>boundaries := (boundaries doc)
         (obj := (boundaries doc obj)\<lparr>CoplanarWith := v\<rparr>)\<rparr>)
       obj ''CoplanarWith''"

text \<open>
  Lines 155-159, \<open>append\<close>, at the three property names it is called with. Reading a list
  property gives a fresh Python list, so only the final \<open>setattr\<close> changes the object:
  \<^verbatim>\<open>
    current_value = getattr(doc_object, fc_property)
    current_value.append(value)
    setattr(doc_object, fc_property, current_value)
  \<close>
  An \<open>Element\<close> object has the handler of \<open>Root\<close> (lines 437-439), which does nothing.
\<close>

definition append_InnerBoundaries :: "document \<Rightarrow> nat \<Rightarrow> nat \<Rightarrow> document" where
  "append_InnerBoundaries doc doc_object v =
     (let current_value = InnerBoundaries (boundaries doc doc_object)
      in set_InnerBoundaries doc doc_object (current_value @ [v]))"

definition append_CoplanarWith :: "document \<Rightarrow> nat \<Rightarrow> nat \<Rightarrow> document" where
  "append_CoplanarWith doc doc_object v =
     (let current_value = CoplanarWith (boundaries doc doc_object)
      in set_CoplanarWith doc doc_object (current_value @ [v]))"

definition append_ProvidesBoundaries :: "document \<Rightarrow> nat \<Rightarrow> nat \<Rightarrow> document" where
  "append_ProvidesBoundaries doc doc_object v =
     (let current_value = ProvidesBoundaries (elements doc doc_object)
      in doc\<lparr>elements := (elements doc)
           (doc_object := (elements doc doc_object)\<lparr>ProvidesBoundaries := current_value @ [v]\<rparr>)\<rparr>)"

section \<open>Corresponding boundaries\<close>

text \<open>
  Lines 162-169, \<open>clean_corresponding_candidates\<close>. \<open>list.remove\<close> deletes the first
  occurrence and raises \<open>ValueError\<close> when there is none; Python's \<open>x or y\<close> is \<open>y\<close> only when
  \<open>x\<close> is false; a link property is true when it holds an object:
  \<^verbatim>\<open>
    other_boundaries = fc_boundary.RelatedBuildingElement.ProvidesBoundaries
    other_boundaries.remove(fc_boundary)
    return [
        b
        for b in other_boundaries
        if not b.CorrespondingBoundary or b.RelatingSpace != fc_boundary.RelatingSpace
    ]
  \<close>
\<close>

definition clean_corresponding_candidates :: "document \<Rightarrow> nat \<Rightarrow> py_error + nat list" where
  "clean_corresponding_candidates doc fc_boundary =
     (case RelatedBuildingElement (boundaries doc fc_boundary) of
        None \<Rightarrow> Inl AttributeError
      | Some e \<Rightarrow>
          (let other_boundaries = ProvidesBoundaries (elements doc e) in
           if fc_boundary \<in> set other_boundaries
           then Inr (filter
                  (\<lambda>b. if CorrespondingBoundary (boundaries doc b) = None then True
                       else RelatingSpace (boundaries doc b)
                              \<noteq> RelatingSpace (boundaries doc fc_boundary))
                  (remove1 fc_boundary other_boundaries))
           else Inl ValueError))"

text \<open>
  Lines 183-189, the nearest-centroid loop; \<open>None\<close> stands for the local variable
  \<open>corresponding_boundary\<close> not being bound yet:
  \<^verbatim>\<open>
    for boundary in other_boundaries:
        distance = center_of_mass.distanceToPoint(boundary.Shape.CenterOfMass)
        if distance < min_lenght:
            min_lenght = distance
            corresponding_boundary = boundary
  \<close>
\<close>

fun nearest_loop ::
  "document \<Rightarrow> vector \<Rightarrow> real \<Rightarrow> nat option \<Rightarrow> nat list \<Rightarrow> real \<times> nat option" where
  "nearest_loop doc center_of_mass min_lenght corresponding_boundary [] =
     (min_lenght, corresponding_boundary)"
| "nearest_loop doc center_of_mass min_lenght corresponding_boundary (boundary # rest) =
     (let distance = distanceToPoint center_of_mass (CenterOfMass (Shape (boundaries doc boundary)))
      in if distance < min_lenght
         then nearest_loop doc center_of_mass distance (Some boundary) rest
         else nearest_loop doc center_of_mass min_lenght corresponding_boundary rest)"

text \<open>
  Lines 172-191, \<open>associate_corresponding_boundary\<close>. Reading the unbound local in line
  190 raises \<open>UnboundLocalError\<close>:
  \<^verbatim>\<open>
    if (fc_boundary.InternalOrExternalBoundary != "INTERNAL"
        or fc_boundary.CorrespondingBoundary):
        return
    other_boundaries = clean_corresponding_candidates(fc_boundary)
    if len(other_boundaries) == 1:
        corresponding_boundary = other_boundaries[0]
    else:
        center_of_mass = fc_boundary.Shape.CenterOfMass
        min_lenght = 10000  # No element has 10 m
        for boundary in other_boundaries: ...
    fc_boundary.CorrespondingBoundary = corresponding_boundary
    corresponding_boundary.CorrespondingBoundary = fc_boundary
  \<close>
\<close>

definition associate_corresponding_boundary :: "document \<Rightarrow> nat \<Rightarrow> document result" where
  "associate_corresponding_boundary doc fc_boundary =
     (if (if InternalOrExternalBoundary (boundaries doc fc_boundary) \<noteq> INTERNAL then True
          else CorrespondingBoundary (boundaries doc fc_boundary) \<noteq> None)
      then Inr doc
      else
        (case clean_corresponding_candidates doc fc_boundary of
           Inl e \<Rightarrow> Inl (e, doc)
         | Inr other_boundaries \<Rightarrow>
             (let corresponding_boundary =
                    (if length other_boundaries = 1 then Some (other_boundaries ! 0)
                     else snd (nearest_loop doc
                                 (CenterOfMass (Shape (boundaries doc fc_boundary)))
                                 10000 None other_boundaries))
              in case corresponding_boundary of
                   None \<Rightarrow> Inl (UnboundLocalError, doc)
                 | Some c \<Rightarrow>
                     Inr (set_CorrespondingBoundary
                            (set_CorrespondingBoundary doc fc_boundary (Some c))
                            c (Some fc_boundary)))))"

text \<open>
  Lines 79-81, the two nested loops of the matcher:
  \<^verbatim>\<open>
    for space_group in group_2nd.Group:
        for fc_boundary in space_group.Group:
            associate_corresponding_boundary(fc_boundary)
  \<close>
\<close>

fun associate_group :: "document \<Rightarrow> nat list \<Rightarrow> document result" where
  "associate_group doc [] = Inr doc"
| "associate_group doc (fc_boundary # rest) =
     (case associate_corresponding_boundary doc fc_boundary of
        Inl e \<Rightarrow> Inl e
      | Inr doc' \<Rightarrow> associate_group doc' rest)"

fun associate_groups :: "document \<Rightarrow> nat list \<Rightarrow> document result" where
  "associate_groups doc [] = Inr doc"
| "associate_groups doc (space_group # rest) =
     (case associate_group doc (Group doc space_group) of
        Inl e \<Rightarrow> Inl e
      | Inr doc' \<Rightarrow> associate_groups doc' rest)"

definition associate_corresponding_boundaries :: "document \<Rightarrow> document result" where
  "associate_corresponding_boundaries doc = associate_groups doc (group_2nd doc)"

section \<open>Coplanar and hosted boundaries\<close>

text \<open>
  Lines 142-152. \<open>get_plane\<close> builds a plane from the first vertex and the normal;
  indexing an empty vertex list raises \<open>IndexError\<close>. The test \<open>isCoplanar\<close> of two plane
  shapes belongs to FreeCAD's geometry kernel and is a parameter. The left plane is
  built first.
\<close>

type_synonym plane = "vector \<times> vector"

definition get_plane :: "document \<Rightarrow> nat \<Rightarrow> py_error + plane" where
  "get_plane doc fc_boundary =
     (case Vertexes (Shape (boundaries doc fc_boundary)) of
        [] \<Rightarrow> Inl IndexError
      | v # _ \<Rightarrow> Inr (v, normalAt (Shape (boundaries doc fc_boundary))))"

definition is_coplanar ::
  "(plane \<Rightarrow> plane \<Rightarrow> bool) \<Rightarrow> document \<Rightarrow> nat \<Rightarrow> nat \<Rightarrow> py_error + bool" where
  "is_coplanar isCoplanar doc shape_1 shape_2 =
     (case get_plane doc shape_1 of
        Inl e \<Rightarrow> Inl e
      | Inr plane_1 \<Rightarrow>
          (case get_plane doc shape_2 of
             Inl e \<Rightarrow> Inl e
           | Inr plane_2 \<Rightarrow> Inr (isCoplanar plane_1 plane_2)))"

text \<open>\<open>itertools.combinations(xs, 2)\<close>: the pairs of positions \<open>i < j\<close>, in lexicographic order.\<close>

fun combinations :: "'a list \<Rightarrow> ('a \<times> 'a) list" where
  "combinations [] = []"
| "combinations (x # xs) = map (Pair x) xs @ combinations xs"

text \<open>
  Lines 94-97:
  \<^verbatim>\<open>
    for fc_boundary_1, fc_boundary_2 in itertools.combinations(fc_boundaries, 2):
        if is_coplanar(fc_boundary_1, fc_boundary_2):
            append(fc_boundary_1, "CoplanarWith", fc_boundary_2)
            append(fc_boundary_2, "CoplanarWith", fc_boundary_1)
  \<close>
\<close>

fun coplanar_loop ::
  "(plane \<Rightarrow> plane \<Rightarrow> bool) \<Rightarrow> document \<Rightarrow> (nat \<times> nat) list \<Rightarrow> document result" where
  "coplanar_loop isCoplanar doc [] = Inr doc"
| "coplanar_loop isCoplanar doc ((fc_boundary_1, fc_boundary_2) # rest) =
     (case is_coplanar isCoplanar doc fc_boundary_1 fc_boundary_2 of
        Inl e \<Rightarrow> Inl (e, doc)
      | Inr c \<Rightarrow>
          (if c
           then coplanar_loop isCoplanar
                  (append_CoplanarWith (append_CoplanarWith doc fc_boundary_1 fc_boundary_2)
                     fc_boundary_2 fc_boundary_1)
                  rest
           else coplanar_loop isCoplanar doc rest))"

text \<open>
  Lines 100-117. \<open>host_element\<close> is a local variable of \<open>display_boundaries\<close>: it keeps its
  value from one boundary to the next and from one space to the next, and \<open>None\<close> stands
  for its not being bound yet. The \<open>append\<close> of line 106 is outside the \<open>if\<close> of line 103.
  The branch for boundaries that are not hosted computes a list and changes nothing:
  \<^verbatim>\<open>
    for fc_boundary in fc_boundaries:
        if fc_boundary.IsHosted:
            # TODO : Handle cases where there is more than 1 coplanar boundary
            if len(fc_boundary.CoplanarWith) == 1:
                host_element = fc_boundary.CoplanarWith[0]
                fc_boundary.ParentBoundary = host_element
            append(host_element, "InnerBoundaries", fc_boundary)
            continue
        non_hosted_coplanar = [b for b in fc_boundary.CoplanarWith if not b.IsHosted]
        if not non_hosted_coplanar:
            continue
        elif len(non_hosted_coplanar) == 1:
            pass
  \<close>
\<close>

fun hosting_loop :: "document \<Rightarrow> nat option \<Rightarrow> nat list \<Rightarrow> (document \<times> nat option) result" where
  "hosting_loop doc host_element [] = Inr (doc, host_element)"
| "hosting_loop doc host_element (fc_boundary # rest) =
     (if IsHosted (boundaries doc fc_boundary)
      then
        (let coplanar = CoplanarWith (boundaries doc fc_boundary);
             host_element' =
               (if length coplanar = 1 then Some (coplanar ! 0) else host_element);
             doc' =
               (if length coplanar = 1
                then set_ParentBoundary doc fc_boundary (Some (coplanar ! 0)) else doc)
         in case host_element' of
              None \<Rightarrow> Inl (UnboundLocalError, doc')
            | Some h \<Rightarrow>
                hosting_loop (append_InnerBoundaries doc' h fc_boundary) host_element' rest)
      else
        (let non_hosted_coplanar =
               filter (\<lambda>b. \<not> IsHosted (boundaries doc b))
                 (CoplanarWith (boundaries doc fc_boundary))
         in if non_hosted_coplanar = [] then hosting_loop doc host_element rest
            else if length non_hosted_coplanar = 1 then hosting_loop doc host_element rest
            else hosting_loop doc host_element rest))"

text \<open>
  Line 91 is \<open>assert ValueError, f"..."\<close>: the asserted expression is the class object
  \<open>ValueError\<close>, and the truth value of a class object is \<open>True\<close>.
\<close>

definition truth_value_of_class :: "py_error \<Rightarrow> bool" where
  "truth_value_of_class c = True"

definition py_assert :: "bool \<Rightarrow> document \<Rightarrow> document result" where
  "py_assert condition doc = (if condition then Inr doc else Inl (AssertionError, doc))"

text \<open>
  Lines 85-117, the body of the loop over the space groups:
  \<^verbatim>\<open>
    fc_boundaries = space_group.Group
    if len(fc_boundaries) == 5:
        continue
    elif len(fc_boundaries) < 5:
        assert ValueError, f"{space_group.Label} has less than 5 boundaries"
  \<close>
  followed by the two loops above.
\<close>

definition associate_hosted_space ::
  "(plane \<Rightarrow> plane \<Rightarrow> bool) \<Rightarrow> document \<Rightarrow> nat option \<Rightarrow> nat
     \<Rightarrow> (document \<times> nat option) result" where
  "associate_hosted_space isCoplanar doc host_element space_group =
     (let fc_boundaries = Group doc space_group in
      if length fc_boundaries = 5 then Inr (doc, host_element)
      else
        (case (if length fc_boundaries < 5
               then py_assert (truth_value_of_class ValueError) doc else Inr doc) of
           Inl e \<Rightarrow> Inl e
         | Inr doc0 \<Rightarrow>
             (case coplanar_loop isCoplanar doc0 (combinations fc_boundaries) of
                Inl e \<Rightarrow> Inl e
              | Inr doc1 \<Rightarrow> hosting_loop doc1 host_element fc_boundaries)))"

fun associate_hosted_spaces ::
  "(plane \<Rightarrow> plane \<Rightarrow> bool) \<Rightarrow> document \<Rightarrow> nat option \<Rightarrow> nat list
     \<Rightarrow> (document \<times> nat option) result" where
  "associate_hosted_spaces isCoplanar doc host_element [] = Inr (doc, host_element)"
| "associate_hosted_spaces isCoplanar doc host_element (space_group # rest) =
     (case associate_hosted_space isCoplanar doc host_element space_group of
        Inl e \<Rightarrow> Inl e
      | Inr (doc', host_element') \<Rightarrow>
          associate_hosted_spaces isCoplanar doc' host_element' rest)"

definition associate_hosted_elements ::
  "(plane \<Rightarrow> plane \<Rightarrow> bool) \<Rightarrow> document \<Rightarrow> document result" where
  "associate_hosted_elements isCoplanar doc =
     (case associate_hosted_spaces isCoplanar doc None (group_2nd doc) of
        Inl e \<Rightarrow> Inl e
      | Inr (doc', host_element) \<Rightarrow> Inr doc')"

section \<open>Building the shapes and the document objects\<close>

text \<open>
  The three construction tiers \<open>_part_by_brep\<close>, \<open>part_by_wires\<close> and \<open>_part_by_mesh\<close>
  (lines 292-342) call the geometry kernels of IfcOpenShell and FreeCAD on the surface
  entity. What matters to their caller is whether a tier returns a shape or raises, so
  each tier is a parameter that maps the surface's entity number to a shape or to the
  exception it raises.
\<close>

record kernel =
  part_by_brep :: "nat \<Rightarrow> py_error + shape"
  part_by_wires :: "nat \<Rightarrow> py_error + shape"
  part_by_mesh :: "nat \<Rightarrow> py_error + shape"

text \<open>
  Lines 280-289, the second block of \<open>create_fc_shape\<close>. It is reached with \<open>BREP\<close> false,
  or with \<open>fallback\<close> set by the handler of the first block, so its condition
  \<open>not BREP or fallback\<close> holds whenever it is evaluated. Only \<open>RuntimeError\<close> is caught,
  and the call of \<open>_part_by_mesh\<close> in the handler is not guarded. The printed texts end
  with the representation of the entity, which is left out:
  \<^verbatim>\<open>
        try:
            return part_by_wires(space_boundary.ConnectionGeometry.SurfaceOnRelatingElement)
        except RuntimeError:
            print(f"Failed to generate mesh from {space_boundary}")
            return _part_by_mesh(space_boundary.ConnectionGeometry.SurfaceOnRelatingElement)
  \<close>
\<close>

definition wires_then_mesh :: "kernel \<Rightarrow> document \<Rightarrow> nat \<Rightarrow> (shape \<times> document) result" where
  "wires_then_mesh k doc surface =
     (case part_by_wires k surface of
        Inr s \<Rightarrow> Inr (s, doc)
      | Inl e \<Rightarrow>
          (if e = RuntimeError
           then (let doc' = print doc ''Failed to generate mesh from'' in
                 case part_by_mesh k surface of
                   Inr s \<Rightarrow> Inr (s, doc')
                 | Inl e' \<Rightarrow> Inl (e', doc'))
           else Inl (e, doc)))"

text \<open>
  Lines 270-289, \<open>create_fc_shape\<close>, with the module constant \<open>BREP\<close> as its first
  argument:
  \<^verbatim>\<open>
    if BREP:
        try:
            return _part_by_brep(space_boundary.ConnectionGeometry.SurfaceOnRelatingElement)
        except RuntimeError:
            print(f"Failed to generate brep from {space_boundary}")
            fallback = True
    if not BREP or fallback:
        ...
  \<close>
\<close>

definition create_fc_shape ::
  "bool \<Rightarrow> kernel \<Rightarrow> document \<Rightarrow> ifc_rel_space_boundary \<Rightarrow> (shape \<times> document) result" where
  "create_fc_shape brep k doc space_boundary =
     (let surface = SurfaceOnRelatingElement space_boundary in
      if brep
      then (case part_by_brep k surface of
              Inr s \<Rightarrow> Inr (s, doc)
            | Inl e \<Rightarrow>
                (if e = RuntimeError
                 then wires_then_mesh k (print doc ''Failed to generate brep from'') surface
                 else Inl (e, doc)))
      else wires_then_mesh k doc surface)"

text \<open>
  Lines 378-393, \<open>get_color\<close>: the colour of the first class of the table, in the order
  of the dictionary, that the product is an instance of; when there is none, a text is
  printed and black is returned:
  \<^verbatim>\<open>
    for product, color in product_colors.items():
        if ifc_product.is_a(product):
            return color
    else:
        print(f"No color found for {ifc_product.is_a()}")
        return (0.0, 0.0, 0.0)
  \<close>
\<close>

definition product_colors :: "(string \<times> (real \<times> real \<times> real)) list" where
  "product_colors =
     [(''IfcWall'', (7 / 10, 3 / 10, 0)),
      (''IfcWindow'', (0, 7 / 10, 1)),
      (''IfcSlab'', (7 / 10, 7 / 10, 5 / 10)),
      (''IfcRoof'', (0, 3 / 10, 0)),
      (''IfcDoor'', (1, 1, 1))]"

definition get_color :: "document \<Rightarrow> ifc_element \<Rightarrow> (real \<times> real \<times> real) \<times> document" where
  "get_color doc ifc_product =
     (case find (\<lambda>entry. is_a ifc_product (fst entry)) product_colors of
        Some entry \<Rightarrow> (snd entry, doc)
      | None \<Rightarrow> ((0, 0, 0), print doc (''No color found for '' @ ifc_class ifc_product)))"

text \<open>
  Lines 404-413 and 464-509, \<open>make_relspaceboundary\<close> with \<open>RelSpaceBoundary.__init__\<close>:
  \<open>addObject\<close> creates the object, then the properties are added and set. Line 431
  (through \<open>set_label\<close>, lines 525-529) reads an attribute of
  \<open>ifc_entity.RelatedBuildingElement\<close> before anything else is done with it, which raises
  \<open>AttributeError\<close> when the boundary has no element. Line 497 calls \<open>get_color\<close>, which
  may print, before the shape is built; the colour goes to the view object (the code
  needs FreeCAD's user interface for it), which is not modelled, nor are the label and
  the coincidence lists of the proxy.
  \<^verbatim>\<open>
    obj.ViewObject.ShapeColor = get_color(ifc_entity.RelatedBuildingElement)
    obj.GlobalId = ifc_entity.GlobalId
    obj.InternalOrExternalBoundary = ifc_entity.InternalOrExternalBoundary
    obj.PhysicalOrVirtualBoundary = ifc_entity.PhysicalOrVirtualBoundary
    obj.Shape = create_fc_shape(ifc_entity)
    obj.Area = obj.AreaWithHosted = obj.Shape.Area
    self.set_label(obj, ifc_entity)
    if ifc_entity.RelatedBuildingElement.FillsVoids:
        obj.IsHosted = True
  \<close>
\<close>

definition make_relspaceboundary ::
  "kernel \<Rightarrow> document \<Rightarrow> ifc_rel_space_boundary \<Rightarrow> (nat \<times> document) result" where
  "make_relspaceboundary k doc ifc_entity =
     (let obj = object_count doc;
          doc1 = doc\<lparr>object_count := Suc obj\<rparr>
      in case ifc_RelatedBuildingElement ifc_entity of
           None \<Rightarrow> Inl (AttributeError, doc1)
         | Some related \<Rightarrow>
             (case create_fc_shape BREP k (snd (get_color doc1 related)) ifc_entity of
                Inl e \<Rightarrow> Inl e
              | Inr (s, doc2) \<Rightarrow>
                  Inr (obj, doc2\<lparr>boundaries := (boundaries doc2)
                    (obj := \<lparr>RelatingSpace = None,
                             RelatedBuildingElement = None,
                             InternalOrExternalBoundary = ifc_InternalOrExternalBoundary ifc_entity,
                             CorrespondingBoundary = None,
                             ParentBoundary = None,
                             InnerBoundaries = [],
                             CoplanarWith = [],
                             IsHosted = FillsVoids related,
                             Area = Shape_Area s,
                             AreaWithHosted = Shape_Area s,
                             Shape = s\<rparr>)\<rparr>)))"

text \<open>
  Lines 219-223, \<open>get_related_element\<close>: the first element of the group (its member list
  is the second argument) with the GlobalId of the boundary's element, or \<open>None\<close> when the loop ends without a \<open>return\<close>.
\<close>

definition get_related_element ::
  "document \<Rightarrow> nat list \<Rightarrow> ifc_rel_space_boundary \<Rightarrow> py_error + nat option" where
  "get_related_element doc members ifc_entity =
     (case ifc_RelatedBuildingElement ifc_entity of
        None \<Rightarrow> Inl AttributeError
      | Some related \<Rightarrow>
          Inr (find (\<lambda>element. GlobalId (elements doc element) = ifc_GlobalId related) members))"

text \<open>
  Lines 68-76, the loop over the boundaries of one space (the placement is not modelled):
  \<^verbatim>\<open>
    for ifc_boundary in (b for b in space.BoundedBy if b.Name == "2ndLevel"):
        face = make_relspaceboundary(ifc_boundary)
        space_group.addObject(face)
        element = get_related_element(doc, elements_group.Group, ifc_boundary)
        face.RelatedBuildingElement = element
        append(element, "ProvidesBoundaries", face)
        face.RelatingSpace = space_group
  \<close>
\<close>

fun generate_space_boundaries ::
  "kernel \<Rightarrow> document \<Rightarrow> nat \<Rightarrow> ifc_rel_space_boundary list \<Rightarrow> document result" where
  "generate_space_boundaries k doc space_group [] = Inr doc"
| "generate_space_boundaries k doc space_group (ifc_boundary # rest) =
     (if Name ifc_boundary = ''2ndLevel''
      then
        (case make_relspaceboundary k doc ifc_boundary of
           Inl e \<Rightarrow> Inl e
         | Inr (face, doc1) \<Rightarrow>
             (let doc2 = doc1\<lparr>Group := (Group doc1)
                           (space_group := Group doc1 space_group @ [face])\<rparr>
              in case get_related_element doc2 (elements_group doc2) ifc_boundary of
                   Inl e \<Rightarrow> Inl (e, doc2)
                 | Inr element \<Rightarrow>
                     (let doc3 = doc2\<lparr>boundaries := (boundaries doc2)
                                   (face := (boundaries doc2 face)
                                      \<lparr>RelatedBuildingElement := element\<rparr>)\<rparr>
                      in case element of
                           None \<Rightarrow> Inl (AttributeError, doc3)
                         | Some el \<Rightarrow>
                             (let doc4 = append_ProvidesBoundaries doc3 el face;
                                  doc5 = doc4\<lparr>boundaries := (boundaries doc4)
                                           (face := (boundaries doc4 face)
                                              \<lparr>RelatingSpace := Some space_group\<rparr>)\<rparr>
                              in generate_space_boundaries k doc5 space_group rest))))
      else generate_space_boundaries k doc space_group rest)"

text \<open>
  Lines 58-64, the loop over the spaces: a new group object per space, member of the
  group \<open>SecondLevel\<close>.
\<close>

fun generate_boundaries :: "kernel \<Rightarrow> document \<Rightarrow> ifc_space list \<Rightarrow> document result" where
  "generate_boundaries k doc [] = Inr doc"
| "generate_boundaries k doc (space # rest) =
     (let space_group = object_count doc;
          doc1 = doc\<lparr>object_count := Suc space_group,
                     Group := (Group doc)(space_group := []),
                     group_2nd := group_2nd doc @ [space_group]\<rparr>
      in case generate_space_boundaries k doc1 space_group (BoundedBy space) of
           Inl e \<Rightarrow> Inl e
         | Inr doc2 \<Rightarrow> generate_boundaries k doc2 rest)"

text \<open>
  Lines 52-55 and 532-558: an \<open>Element\<close> object for every \<open>IfcElement\<close> that provides
  boundaries, member of the group \<open>Elements\<close>.
\<close>

fun generate_elements :: "document \<Rightarrow> ifc_element list \<Rightarrow> document" where
  "generate_elements doc [] = doc"
| "generate_elements doc (ifc_entity # rest) =
     (if ifc_ProvidesBoundaries ifc_entity
      then (let obj = object_count doc
            in generate_elements
                 (doc\<lparr>object_count := Suc obj,
                      elements := (elements doc)
                        (obj := \<lparr>GlobalId = ifc_GlobalId ifc_entity, ProvidesBoundaries = []\<rparr>),
                      elements_group := elements_group doc @ [obj]\<rparr>)
                 rest)
      else generate_elements doc rest)"

text \<open>
  Lines 35-139, \<open>display_boundaries\<close>, from line 51 on: the elements and the boundaries
  are created, then come, in the order of the source, the loop headed
  \<open># Associate CorrespondingBoundary\<close> (lines 79-81) and the loop headed
  \<open># Associate hosted elements\<close> (lines 84-117). The groups, the application identifier
  and the final \<open>doc.recompute()\<close> are not modelled.
\<close>

definition display_boundaries ::
  "kernel \<Rightarrow> (plane \<Rightarrow> plane \<Rightarrow> bool) \<Rightarrow> ifc_file \<Rightarrow> document \<Rightarrow> document result" where
  "display_boundaries k isCoplanar file doc =
     (case generate_boundaries k (generate_elements doc (IfcElement file)) (IfcSpace file) of
        Inl e \<Rightarrow> Inl e
      | Inr doc0 \<Rightarrow>
          (case associate_corresponding_boundaries doc0 of
             Inl e \<Rightarrow> Inl e
           | Inr doc1 \<Rightarrow> associate_hosted_elements isCoplanar doc1))"

section \<open>Example documents\<close>

text \<open>
  A planar face in the plane \<open>x = p\<close>, with its first vertex and its centre of mass at
  \<open>(p, y, 0)\<close>, and a boundary object as the creation loop leaves it: in a space group,
  provided by an element, nothing resolved yet.
\<close>

definition face :: "real \<Rightarrow> real \<Rightarrow> shape" where
  "face p y =
     \<lparr>Vertexes = [(p, y, 0)], normalAt = (1, 0, 0), CenterOfMass = (p, y, 0), Shape_Area = 1\<rparr>"

definition fresh_boundary ::
  "internal_or_external \<Rightarrow> bool \<Rightarrow> nat \<Rightarrow> nat \<Rightarrow> shape \<Rightarrow> boundary" where
  "fresh_boundary ioe hosted space_group el s =
     \<lparr>RelatingSpace = Some space_group, RelatedBuildingElement = Some el,
      InternalOrExternalBoundary = ioe, CorrespondingBoundary = None, ParentBoundary = None,
      InnerBoundaries = [], CoplanarWith = [], IsHosted = hosted,
      Area = Shape_Area s, AreaWithHosted = Shape_Area s, Shape = s\<rparr>"

definition new_document :: document where
  "new_document =
     \<lparr>boundaries = (\<lambda>_. fresh_boundary NOTDEFINED False 0 0 (face 0 0)),
      elements = (\<lambda>_. \<lparr>GlobalId = [], ProvidesBoundaries = []\<rparr>),
      Group = (\<lambda>_. []), group_2nd = [], elements_group = [], object_count = 0,
      console = []\<rparr>"

text \<open>
  One element (object 10) that provides three INTERNAL boundaries 0, 1 and 2, each in a
  space of its own (groups 20, 21 and 22), in the parallel planes \<open>x = x0\<close>, \<open>x = x1\<close> and
  \<open>x = x2\<close>.
\<close>

definition three_spaces :: "real \<Rightarrow> real \<Rightarrow> real \<Rightarrow> document" where
  "three_spaces x0 x1 x2 =
     new_document\<lparr>
       boundaries := (boundaries new_document)
         (0 := fresh_boundary INTERNAL False 20 10 (face x0 0),
          1 := fresh_boundary INTERNAL False 21 10 (face x1 0),
          2 := fresh_boundary INTERNAL False 22 10 (face x2 0)),
       elements := (elements new_document)
         (10 := \<lparr>GlobalId = ''slab'', ProvidesBoundaries = [0, 1, 2]\<rparr>),
       Group := (Group new_document)(20 := [0], 21 := [1], 22 := [2]),
       group_2nd := [20, 21, 22], elements_group := [10], object_count := 23\<rparr>"

text \<open>One element that provides a single INTERNAL boundary.\<close>

definition lone_boundary :: document where
  "lone_boundary =
     new_document\<lparr>
       boundaries := (boundaries new_document)
         (0 := fresh_boundary INTERNAL False 20 10 (face 0 0)),
       elements := (elements new_document)
         (10 := \<lparr>GlobalId = ''wall'', ProvidesBoundaries = [0]\<rparr>),
       Group := (Group new_document)(20 := [0]),
       group_2nd := [20], elements_group := [10], object_count := 21\<rparr>"

text \<open>
  One element that provides four INTERNAL boundaries: 0 and 1 lie in the same space
  (group 20) and are not paired; 2 and 3 lie in two other spaces and are paired with
  each other.
\<close>

definition shared_element :: document where
  "shared_element =
     new_document\<lparr>
       boundaries := (boundaries new_document)
         (0 := fresh_boundary INTERNAL False 20 10 (face 0 0),
          1 := fresh_boundary INTERNAL False 20 10 (face 0 5),
          2 := (fresh_boundary INTERNAL False 21 10 (face 200 0))
                 \<lparr>CorrespondingBoundary := Some 3\<rparr>,
          3 := (fresh_boundary INTERNAL False 22 10 (face 400 0))
                 \<lparr>CorrespondingBoundary := Some 2\<rparr>),
       elements := (elements new_document)
         (10 := \<lparr>GlobalId = ''wall'', ProvidesBoundaries = [0, 1, 2, 3]\<rparr>),
       Group := (Group new_document)(20 := [0, 1], 21 := [2], 22 := [3]),
       group_2nd := [21, 22, 20], elements_group := [10], object_count := 23\<rparr>"

text \<open>
  An exact instance of the kernel's coplanarity test, for the examples: the normals are
  parallel and the point of the second plane lies in the first plane.
\<close>

fun sub :: "vector \<Rightarrow> vector \<Rightarrow> vector" where
  "sub (x1, y1, z1) (x2, y2, z2) = (x1 - x2, y1 - y2, z1 - z2)"

fun dot :: "vector \<Rightarrow> vector \<Rightarrow> real" where
  "dot (x1, y1, z1) (x2, y2, z2) = x1 * x2 + y1 * y2 + z1 * z2"

definition planes_coincide :: "plane \<Rightarrow> plane \<Rightarrow> bool" where
  "planes_coincide p q =
     (cross (snd p) (snd q) = (0, 0, 0) \<and> dot (snd p) (sub (fst q) (fst p)) = 0)"

text \<open>
  A space (group 20) with six boundaries: a wall boundary 0 with a door boundary 1 in
  its plane, two wall boundaries 2 and 3 in a second plane with a window boundary 4 in
  that plane, and a boundary 5 in a third plane. The door and the window are hosted.
\<close>

definition hosting_example :: document where
  "hosting_example =
     new_document\<lparr>
       boundaries := (boundaries new_document)
         (0 := fresh_boundary EXTERNAL False 20 10 (face 0 0),
          1 := fresh_boundary EXTERNAL True 20 11 (face 0 1),
          2 := fresh_boundary EXTERNAL False 20 12 (face 5 0),
          3 := fresh_boundary EXTERNAL False 20 12 (face 5 3),
          4 := fresh_boundary EXTERNAL True 20 13 (face 5 1),
          5 := fresh_boundary EXTERNAL False 20 14 (face 9 0)),
       elements := (elements new_document)
         (10 := \<lparr>GlobalId = ''wall 1'', ProvidesBoundaries = [0]\<rparr>,
          11 := \<lparr>GlobalId = ''door'', ProvidesBoundaries = [1]\<rparr>,
          12 := \<lparr>GlobalId = ''wall 2'', ProvidesBoundaries = [2, 3]\<rparr>,
          13 := \<lparr>GlobalId = ''window'', ProvidesBoundaries = [4]\<rparr>,
          14 := \<lparr>GlobalId = ''wall 3'', ProvidesBoundaries = [5]\<rparr>),
       Group := (Group new_document)(20 := [0, 1, 2, 3, 4, 5]),
       group_2nd := [20], elements_group := [10, 11, 12, 13, 14], object_count := 21\<rparr>"

text \<open>A space with exactly five boundaries, of which 0 and 1 lie in one plane.\<close>

definition five_boundaries :: document where
  "five_boundaries =
     new_document\<lparr>
       boundaries := (boundaries new_document)
         (0 := fresh_boundary EXTERNAL False 20 10 (face 0 0),
          1 := fresh_boundary EXTERNAL False 20 10 (face 0 5),
          2 := fresh_boundary EXTERNAL False 20 11 (face 3 0),
          3 := fresh_boundary EXTERNAL False 20 12 (face 6 0),
          4 := fresh_boundary EXTERNAL False 20 13 (face 9 0)),
       elements := (elements new_document)
         (10 := \<lparr>GlobalId = ''wall 1'', ProvidesBoundaries = [0, 1]\<rparr>,
          11 := \<lparr>GlobalId = ''wall 2'', ProvidesBoundaries = [2]\<rparr>,
          12 := \<lparr>GlobalId = ''floor'', ProvidesBoundaries = [3]\<rparr>,
          13 := \<lparr>GlobalId = ''ceiling'', ProvidesBoundaries = [4]\<rparr>),
       Group := (Group new_document)(20 := [0, 1, 2, 3, 4]),
       group_2nd := [20], elements_group := [10, 11, 12, 13], object_count := 21\<rparr>"

text \<open>A space with only three boundaries, in three different planes, none hosted.\<close>

definition three_boundaries :: document where
  "three_boundaries =
     new_document\<lparr>
       boundaries := (boundaries new_document)
         (0 := fresh_boundary EXTERNAL False 20 10 (face 0 0),
          1 := fresh_boundary EXTERNAL False 20 11 (face 3 0),
          2 := fresh_boundary EXTERNAL False 20 12 (face 6 0)),
       elements := (elements new_document)
         (10 := \<lparr>GlobalId = ''wall'', ProvidesBoundaries = [0]\<rparr>,
          11 := \<lparr>GlobalId = ''floor'', ProvidesBoundaries = [1]\<rparr>,
          12 := \<lparr>GlobalId = ''ceiling'', ProvidesBoundaries = [2]\<rparr>),
       Group := (Group new_document)(20 := [0, 1, 2]),
       group_2nd := [20], elements_group := [10, 11, 12], object_count := 21\<rparr>"

text \<open>
  IFC entities for the examples: a wall, a window that fills a void, and a column, whose
  class has no colour in the table of \<open>get_color\<close>; a second-level boundary of an element
  with a given surface entity; a file with these elements and one space per list of
  boundaries.
\<close>

definition wall_entity :: ifc_element where
  "wall_entity =
     \<lparr>ifc_GlobalId = ''wall'', ifc_class = ''IfcWallStandardCase'',
      ifc_supertypes = [''IfcWall'', ''IfcBuildingElement'', ''IfcElement''],
      ifc_ProvidesBoundaries = True, FillsVoids = False\<rparr>"

definition window_entity :: ifc_element where
  "window_entity =
     \<lparr>ifc_GlobalId = ''window'', ifc_class = ''IfcWindow'',
      ifc_supertypes = [''IfcBuildingElement'', ''IfcElement''],
      ifc_ProvidesBoundaries = True, FillsVoids = True\<rparr>"

definition column_entity :: ifc_element where
  "column_entity =
     \<lparr>ifc_GlobalId = ''column'', ifc_class = ''IfcColumn'',
      ifc_supertypes = [''IfcBuildingElement'', ''IfcElement''],
      ifc_ProvidesBoundaries = True, FillsVoids = False\<rparr>"

definition second_level ::
  "ifc_element \<Rightarrow> internal_or_external \<Rightarrow> nat \<Rightarrow> ifc_rel_space_boundary" where
  "second_level related ioe surface =
     \<lparr>Name = ''2ndLevel'', ifc_InternalOrExternalBoundary = ioe,
      SurfaceOnRelatingElement = surface, ifc_RelatedBuildingElement = Some related\<rparr>"

definition example_file :: "ifc_rel_space_boundary list list \<Rightarrow> ifc_file" where
  "example_file spaces =
     \<lparr>IfcElement = [wall_entity, window_entity, column_entity],
      IfcSpace = map (\<lambda>bs. \<lparr>BoundedBy = bs\<rparr>) spaces\<rparr>"

text \<open>
  A geometry kernel for the examples: the wire and mesh tiers fail with \<open>RuntimeError\<close>
  on the surface entity 1; from any other surface entity \<open>s\<close> they build the face in the
  plane \<open>x = s div 10\<close> at offset \<open>s mod 10\<close>.
\<close>

definition example_kernel :: kernel where
  "example_kernel =
     \<lparr>part_by_brep = (\<lambda>surface. Inl RuntimeError),
      part_by_wires = (\<lambda>surface. if surface = 1 then Inl RuntimeError
         else Inr (face (real (surface div 10)) (real (surface mod 10)))),
      part_by_mesh = (\<lambda>surface. if surface = 1 then Inl RuntimeError
         else Inr (face (real (surface div 10)) (real (surface mod 10))))\<rparr>"

text \<open>
  Three files for the examples, and the document that the creation loops build from a
  file with the example kernel, starting from a new document (the three elements are
  the objects 0, 1 and 2; groups and boundaries follow in the order of the file).

  \<open>aborted_file\<close>: three spaces; the second boundary of the second space belongs to the
  column and has the surface on which the tiers fail. \<open>aborted_prefix\<close> is what precedes
  that boundary: the first space, and the second space cut before it.

  \<open>pending_file\<close>: two spaces on the two sides of a wall, with the INTERNAL boundaries 4
  (group 3) and 7 (group 6); the first space also has the hosted boundary 5 of a window
  that is coplanar with nothing.

  \<open>unmatched_file\<close>: one space with the INTERNAL boundary 4 of the wall, which has no
  other boundary, and the boundary 5 of the column in the same plane.
\<close>

definition aborted_file :: ifc_file where
  "aborted_file = example_file
     [[second_level wall_entity EXTERNAL 20],
      [second_level wall_entity EXTERNAL 30, second_level column_entity EXTERNAL 1,
       second_level wall_entity EXTERNAL 40],
      [second_level wall_entity EXTERNAL 50]]"

definition aborted_prefix :: "ifc_space list" where
  "aborted_prefix =
     [\<lparr>BoundedBy = [second_level wall_entity EXTERNAL 20]\<rparr>,
      \<lparr>BoundedBy = [second_level wall_entity EXTERNAL 30]\<rparr>]"

definition pending_file :: ifc_file where
  "pending_file = example_file
     [[second_level wall_entity INTERNAL 0, second_level window_entity EXTERNAL 70],
      [second_level wall_entity INTERNAL 2000]]"

definition unmatched_file :: ifc_file where
  "unmatched_file = example_file
     [[second_level wall_entity INTERNAL 0, second_level column_entity EXTERNAL 5]]"

definition created :: "ifc_file \<Rightarrow> document" where
  "created file =
     projr (generate_boundaries example_kernel
              (generate_elements new_document (IfcElement file)) (IfcSpace file))"

section \<open>What a pass leaves unchanged\<close>

text \<open>
  \<open>resolves doc doc'\<close>: from \<open>doc\<close> to \<open>doc'\<close> the groups, the shapes and the
  corresponding-boundary links are the same, and every \<open>CoplanarWith\<close> list has kept its
  entries. \<open>pairs_only doc doc'\<close>: the groups and the fields \<open>CoplanarWith\<close>,
  \<open>ParentBoundary\<close> and \<open>InnerBoundaries\<close> are the same.
\<close>

definition resolves :: "document \<Rightarrow> document \<Rightarrow> bool" where
  "resolves doc doc' =
     (Group doc' = Group doc \<and> group_2nd doc' = group_2nd doc
      \<and> (\<forall>b. Shape (boundaries doc' b) = Shape (boundaries doc b)
             \<and> CorrespondingBoundary (boundaries doc' b)
                 = CorrespondingBoundary (boundaries doc b)
             \<and> set (CoplanarWith (boundaries doc b))
                 \<subseteq> set (CoplanarWith (boundaries doc' b))))"

definition pairs_only :: "document \<Rightarrow> document \<Rightarrow> bool" where
  "pairs_only doc doc' =
     (Group doc' = Group doc \<and> group_2nd doc' = group_2nd doc
      \<and> (\<forall>b. CoplanarWith (boundaries doc' b) = CoplanarWith (boundaries doc b)
             \<and> ParentBoundary (boundaries doc' b) = ParentBoundary (boundaries doc b)
             \<and> InnerBoundaries (boundaries doc' b) = InnerBoundaries (boundaries doc b)))"

section \<open>Area including hosted boundaries: the claim\<close>

lemma foldl_add_sum_list:
  "foldl (\<lambda>a b. a + f b) (x::real) ys = x + sum_list (map f ys)"
  by (induction ys arbitrary: x) auto

lemma recompute_after_assignment:
  "recompute_area_with_hosted
     (doc\<lparr>boundaries := (boundaries doc)(b := (boundaries doc b)\<lparr>InnerBoundaries := v\<rparr>)\<rparr>) b
   = Area (boundaries doc b) + sum_list (map (\<lambda>i. Area (boundaries doc i)) v)"
proof -
  have "\<And>i. Area (((boundaries doc)(b := (boundaries doc b)\<lparr>InnerBoundaries := v\<rparr>)) i)
          = Area (boundaries doc i)"
    by simp
  then show ?thesis
    by (simp add: recompute_area_with_hosted_def foldl_add_sum_list fun_upd_same
        del: fun_upd_apply)
qed

lemma boundaries_set_InnerBoundaries:
  "boundaries (set_InnerBoundaries doc b v) =
     (boundaries doc)(b := (boundaries doc b)
        \<lparr>InnerBoundaries := v,
         AreaWithHosted :=
           Area (boundaries doc b) + sum_list (map (\<lambda>i. Area (boundaries doc i)) v)\<rparr>)"
  unfolding set_InnerBoundaries_def onChanged_def
  by (simp add: recompute_after_assignment del: fun_upd_apply) simp

text \<open>
  C4: whenever the list \<open>InnerBoundaries\<close> of a boundary \<open>B\<close> is changed, \<open>AreaWithHosted\<close>
  has been recomputed by the handler by the time the change returns, so that no later
  read sees the old value. For the assignment of any list \<open>v\<close> to the property, and for
  \<open>append(B, "InnerBoundaries", h)\<close>, which is how the code changes the list: the new
  \<open>B.AreaWithHosted\<close> is the \<open>Area\<close> that \<open>B\<close> had before the change plus the sum, over the new
  list \<open>B.InnerBoundaries\<close>, of the \<open>Area\<close> that each entry had before the change; the
  change leaves the \<open>Area\<close> of every boundary as it was, so the same equation holds
  between the values read afterwards. This holds for every document, also when \<open>h\<close> is
  \<open>B\<close> itself or is already in the list.
\<close>

theorem C4_area_with_hosted_recomputed:
  "InnerBoundaries (boundaries (set_InnerBoundaries doc b v) b) = v
   \<and> AreaWithHosted (boundaries (set_InnerBoundaries doc b v) b)
     = Area (boundaries doc b) + sum_list (map (\<lambda>i. Area (boundaries doc i)) v)
   \<and> (\<forall>i. Area (boundaries (set_InnerBoundaries doc b v) i) = Area (boundaries doc i))
   \<and> AreaWithHosted (boundaries (set_InnerBoundaries doc b v) b)
     = Area (boundaries (set_InnerBoundaries doc b v) b)
       + sum_list (map (\<lambda>i. Area (boundaries (set_InnerBoundaries doc b v) i))
           (InnerBoundaries (boundaries (set_InnerBoundaries doc b v) b)))
   \<and> InnerBoundaries (boundaries (append_InnerBoundaries doc b h) b)
     = InnerBoundaries (boundaries doc b) @ [h]
   \<and> AreaWithHosted (boundaries (append_InnerBoundaries doc b h) b)
     = Area (boundaries doc b)
       + sum_list (map (\<lambda>i. Area (boundaries doc i)) (InnerBoundaries (boundaries doc b) @ [h]))
   \<and> (\<forall>i. Area (boundaries (append_InnerBoundaries doc b h) i) = Area (boundaries doc i))
   \<and> AreaWithHosted (boundaries (append_InnerBoundaries doc b h) b)
     = Area (boundaries (append_InnerBoundaries doc b h) b)
       + sum_list (map (\<lambda>i. Area (boundaries (append_InnerBoundaries doc b h) i))
           (InnerBoundaries (boundaries (append_InnerBoundaries doc b h) b)))"
proof -
  have frame: "\<And>w i. Area (boundaries (set_InnerBoundaries doc b w) i) = Area (boundaries doc i)"
    by (simp add: boundaries_set_InnerBoundaries)
  have assigned: "\<And>w. InnerBoundaries (boundaries (set_InnerBoundaries doc b w) b) = w
    \<and> AreaWithHosted (boundaries (set_InnerBoundaries doc b w) b)
      = Area (boundaries doc b) + sum_list (map (\<lambda>i. Area (boundaries doc i)) w)"
    by (simp add: boundaries_set_InnerBoundaries)
  have appended: "append_InnerBoundaries doc b h
      = set_InnerBoundaries doc b (InnerBoundaries (boundaries doc b) @ [h])"
    by (simp add: append_InnerBoundaries_def)
  show ?thesis
    unfolding appended frame
    using assigned [of v] assigned [of "InnerBoundaries (boundaries doc b) @ [h]"]
    by simp
qed

section \<open>Corresponding boundaries: the claims\<close>

lemma nearest_loop_far:
  "\<forall>c \<in> set cs. m \<le> distanceToPoint p (CenterOfMass (Shape (boundaries doc c)))
   \<Longrightarrow> nearest_loop doc p m cb cs = (m, cb)"
  by (induction cs) (auto simp: Let_def)

text \<open>
  C1 does not hold of the code: the filter of \<open>clean_corresponding_candidates\<close> keeps a
  boundary that is not paired \<^emph>\<open>or\<close> lies in another space, where the claim keeps a boundary
  that is not paired \<^emph>\<open>and\<close> lies in another space. In the document \<open>shared_element\<close> the
  candidates of boundary 0 are 1, 2 and 3, although 1 lies in the space of 0 and 2 and 3
  are paired with each other; the claim's candidate set is empty there.
\<close>

theorem C1_candidates_keep_same_space_and_paired:
  "clean_corresponding_candidates shared_element 0 = Inr [1, 2, 3]
   \<and> InternalOrExternalBoundary (boundaries shared_element 0) = INTERNAL
   \<and> CorrespondingBoundary (boundaries shared_element 0) = None
   \<and> RelatingSpace (boundaries shared_element 1) = RelatingSpace (boundaries shared_element 0)
   \<and> CorrespondingBoundary (boundaries shared_element 2) = Some 3
   \<and> CorrespondingBoundary (boundaries shared_element 3) = Some 2"
  by (simp add: clean_corresponding_candidates_def shared_element_def new_document_def
      fresh_boundary_def)

text \<open>
  What one call of the matcher does when it finds a partner: the processed boundary was
  INTERNAL and not paired, and both links are set by the call.
\<close>

lemma associate_corresponding_boundary_links_both:
  assumes "associate_corresponding_boundary doc b = Inr doc'"
      and "InternalOrExternalBoundary (boundaries doc b) = INTERNAL"
      and "CorrespondingBoundary (boundaries doc b) = None"
  shows "\<exists>c. CorrespondingBoundary (boundaries doc' b) = Some c
           \<and> CorrespondingBoundary (boundaries doc' c) = Some b"
  using assms
  by (auto simp: associate_corresponding_boundary_def set_CorrespondingBoundary_def
      onChanged_def Let_def split: sum.splits option.splits if_splits)

text \<open>
  C3 does not hold of the code: in the document \<open>three_spaces 0 100 150\<close> the matcher
  returns without an exception and leaves boundary 0 linked to 1, 1 linked to 2 and 2
  linked to 1. The link of 0 is not answered by 1, and boundary 1 was assigned twice:
  when boundary 2 is processed, the paired boundaries 0 and 1 are still among its
  candidates, since they lie in other spaces.
\<close>

theorem C3_links_not_symmetric:
  "map (\<lambda>i. InternalOrExternalBoundary (boundaries (three_spaces 0 100 150) i)) [0, 1, 2]
     = [INTERNAL, INTERNAL, INTERNAL]
   \<and> \<not> isl (associate_corresponding_boundaries (three_spaces 0 100 150))
   \<and> map (\<lambda>i. CorrespondingBoundary
             (boundaries (projr (associate_corresponding_boundaries (three_spaces 0 100 150))) i))
       [0, 1, 2]
     = [Some 1, Some 2, Some 1]"
  by (simp add: associate_corresponding_boundaries_def three_spaces_def new_document_def
      fresh_boundary_def face_def associate_corresponding_boundary_def
      clean_corresponding_candidates_def set_CorrespondingBoundary_def onChanged_def)

text \<open>
  C10: when \<open>associate_corresponding_boundary\<close> runs on a boundary that is INTERNAL and not
  paired, and its candidate list is empty, or has more than one entry with every
  candidate's centre of mass at a distance of 10000 or more from the boundary's, then the
  call raises \<open>UnboundLocalError\<close>, and the document in which the exception is raised is
  the document the call started with: no \<open>CorrespondingBoundary\<close> has been assigned.
\<close>

theorem C10_unbound_corresponding_boundary:
  assumes "InternalOrExternalBoundary (boundaries doc b) = INTERNAL"
      and "CorrespondingBoundary (boundaries doc b) = None"
      and "clean_corresponding_candidates doc b = Inr cs"
      and "cs = [] \<or> (1 < length cs \<and> (\<forall>c \<in> set cs. 10000 \<le> distanceToPoint
              (CenterOfMass (Shape (boundaries doc b)))
              (CenterOfMass (Shape (boundaries doc c)))))"
  shows "associate_corresponding_boundary doc b = Inl (UnboundLocalError, doc)"
proof -
  have "nearest_loop doc (CenterOfMass (Shape (boundaries doc b))) 10000 None cs
          = (10000, None)"
    using assms(4) by (auto intro: nearest_loop_far)
  moreover have "length cs \<noteq> 1"
    using assms(4) by auto
  ultimately show ?thesis
    using assms(1-3) by (simp add: associate_corresponding_boundary_def)
qed

text \<open>
  Both cases of C10 at concrete documents: a boundary with no candidate at all, and a
  boundary whose two candidates lie 10000 and 20000 units away.
\<close>

theorem C10_unbound_corresponding_boundary_witness:
  "associate_corresponding_boundary lone_boundary 0 = Inl (UnboundLocalError, lone_boundary)
   \<and> associate_corresponding_boundary (three_spaces 0 10000 20000) 0
       = Inl (UnboundLocalError, three_spaces 0 10000 20000)"
proof
  show "associate_corresponding_boundary lone_boundary 0 = Inl (UnboundLocalError, lone_boundary)"
    using C10_unbound_corresponding_boundary [of lone_boundary 0 "[]"]
    by (simp add: clean_corresponding_candidates_def lone_boundary_def new_document_def
        fresh_boundary_def)
  show "associate_corresponding_boundary (three_spaces 0 10000 20000) 0
          = Inl (UnboundLocalError, three_spaces 0 10000 20000)"
    using C10_unbound_corresponding_boundary [of "three_spaces 0 10000 20000" 0 "[1, 2]"]
    by (simp add: clean_corresponding_candidates_def three_spaces_def new_document_def
        fresh_boundary_def face_def)
qed

section \<open>Coplanar and hosted boundaries: the claims\<close>

lemma append_CoplanarWith_eq:
  "append_CoplanarWith doc a v =
     doc\<lparr>boundaries := (boundaries doc)
       (a := (boundaries doc a)\<lparr>CoplanarWith := CoplanarWith (boundaries doc a) @ [v]\<rparr>)\<rparr>"
  by (simp add: append_CoplanarWith_def set_CoplanarWith_def onChanged_def)

lemma set_ParentBoundary_eq:
  "set_ParentBoundary doc a v =
     doc\<lparr>boundaries := (boundaries doc)(a := (boundaries doc a)\<lparr>ParentBoundary := v\<rparr>)\<rparr>"
  by (simp add: set_ParentBoundary_def onChanged_def)

lemma set_CorrespondingBoundary_eq:
  "set_CorrespondingBoundary doc a v =
     doc\<lparr>boundaries := (boundaries doc)(a := (boundaries doc a)\<lparr>CorrespondingBoundary := v\<rparr>)\<rparr>"
  by (simp add: set_CorrespondingBoundary_def onChanged_def)

lemma append_InnerBoundaries_eq:
  "append_InnerBoundaries doc a v =
     doc\<lparr>boundaries := (boundaries doc)
       (a := (boundaries doc a)
          \<lparr>InnerBoundaries := InnerBoundaries (boundaries doc a) @ [v],
           AreaWithHosted := Area (boundaries doc a)
             + sum_list (map (\<lambda>i. Area (boundaries doc i)) (InnerBoundaries (boundaries doc a) @ [v]))\<rparr>)\<rparr>"
  unfolding append_InnerBoundaries_def set_InnerBoundaries_def onChanged_def Let_def
  by (simp add: recompute_after_assignment fun_upd_same del: fun_upd_apply)

lemma resolves_refl: "resolves doc doc"
  by (simp add: resolves_def)

lemma resolves_trans: "resolves a b \<Longrightarrow> resolves b c \<Longrightarrow> resolves a c"
  unfolding resolves_def by (metis subset_trans)

lemma resolves_append_CoplanarWith: "resolves doc (append_CoplanarWith doc a v)"
  by (auto simp: resolves_def append_CoplanarWith_eq)

lemma resolves_set_ParentBoundary: "resolves doc (set_ParentBoundary doc a v)"
  by (auto simp: resolves_def set_ParentBoundary_eq)

lemma resolves_append_InnerBoundaries: "resolves doc (append_InnerBoundaries doc a v)"
  by (auto simp: resolves_def append_InnerBoundaries_eq)

lemma get_plane_resolves: "resolves doc doc' \<Longrightarrow> get_plane doc' a = get_plane doc a"
  by (auto simp: resolves_def get_plane_def split: list.splits)

lemma is_coplanar_resolves:
  "resolves doc doc' \<Longrightarrow> is_coplanar isC doc' a b = is_coplanar isC doc a b"
  by (auto simp: is_coplanar_def get_plane_resolves split: sum.splits)

lemma coplanar_loop_resolves:
  "coplanar_loop isC doc ps = Inr doc' \<Longrightarrow> resolves doc doc'"
proof (induction ps arbitrary: doc)
  case Nil
  then show ?case by (simp add: resolves_refl)
next
  case (Cons p ps)
  obtain a b where p: "p = (a, b)" by (cases p)
  from Cons.prems p obtain c where c: "is_coplanar isC doc a b = Inr c"
    by (auto split: sum.splits)
  show ?case
  proof (cases c)
    case True
    let ?d = "append_CoplanarWith (append_CoplanarWith doc a b) b a"
    from Cons.prems p c True have "coplanar_loop isC ?d ps = Inr doc'" by simp
    then have "resolves ?d doc'" by (rule Cons.IH)
    moreover have "resolves doc ?d"
      by (blast intro: resolves_trans resolves_append_CoplanarWith)
    ultimately show ?thesis by (rule resolves_trans[rotated])
  next
    case False
    with Cons.prems p c have "coplanar_loop isC doc ps = Inr doc'" by simp
    then show ?thesis by (rule Cons.IH)
  qed
qed

lemma coplanar_loop_registers:
  "coplanar_loop isC doc ps = Inr doc' \<Longrightarrow> (x, y) \<in> set ps
   \<Longrightarrow> is_coplanar isC doc x y = Inr True
   \<Longrightarrow> y \<in> set (CoplanarWith (boundaries doc' x)) \<and> x \<in> set (CoplanarWith (boundaries doc' y))"
proof (induction ps arbitrary: doc)
  case Nil
  then show ?case by simp
next
  case (Cons p ps)
  obtain a b where p: "p = (a, b)" by (cases p)
  from Cons.prems(1) p obtain c where c: "is_coplanar isC doc a b = Inr c"
    by (auto split: sum.splits)
  let ?d = "append_CoplanarWith (append_CoplanarWith doc a b) b a"
  have step: "resolves doc ?d"
    by (blast intro: resolves_trans resolves_append_CoplanarWith)
  show ?case
  proof (cases "(x, y) = (a, b)")
    case True
    with c Cons.prems(3) have "c" by simp
    with Cons.prems(1) p c have rest: "coplanar_loop isC ?d ps = Inr doc'" by simp
    have "y \<in> set (CoplanarWith (boundaries ?d x)) \<and> x \<in> set (CoplanarWith (boundaries ?d y))"
      using True by (simp add: append_CoplanarWith_eq)
    moreover from rest have "resolves ?d doc'" by (rule coplanar_loop_resolves)
    ultimately show ?thesis unfolding resolves_def by blast
  next
    case False
    with Cons.prems(2) p have mem: "(x, y) \<in> set ps" by auto
    show ?thesis
    proof (cases c)
      case True
      with Cons.prems(1) p c have rest: "coplanar_loop isC ?d ps = Inr doc'" by simp
      have "is_coplanar isC ?d x y = Inr True"
        using step Cons.prems(3) by (simp add: is_coplanar_resolves)
      with rest mem show ?thesis by (rule Cons.IH)
    next
      case False
      with Cons.prems(1) p c have "coplanar_loop isC doc ps = Inr doc'" by simp
      then show ?thesis using mem Cons.prems(3) by (rule Cons.IH)
    qed
  qed
qed

lemma combinations_nth:
  "i < j \<Longrightarrow> j < length xs \<Longrightarrow> (xs ! i, xs ! j) \<in> set (combinations xs)"
proof (induction xs arbitrary: i j)
  case Nil
  then show ?case by simp
next
  case (Cons x xs)
  from Cons.prems obtain j' where j: "j = Suc j'" "j' < length xs"
    by (cases j) auto
  show ?case
  proof (cases i)
    case 0
    with j show ?thesis by auto
  next
    case (Suc i')
    with Cons.prems j have "i' < j'" by simp
    then have "(xs ! i', xs ! j') \<in> set (combinations xs)"
      using j(2) by (rule Cons.IH)
    with Suc j show ?thesis by simp
  qed
qed

lemma hosting_loop_resolves:
  "hosting_loop doc h bs = Inr (doc', h') \<Longrightarrow> resolves doc doc'"
proof (induction bs arbitrary: doc h)
  case Nil
  then show ?case by (simp add: resolves_refl)
next
  case (Cons b bs)
  show ?case
  proof (cases "IsHosted (boundaries doc b)")
    case False
    with Cons.prems have "hosting_loop doc h bs = Inr (doc', h')"
      by (simp add: Let_def split: if_splits)
    then show ?thesis by (rule Cons.IH)
  next
    case True
    let ?cop = "CoplanarWith (boundaries doc b)"
    let ?h1 = "if length ?cop = 1 then Some (?cop ! 0) else h"
    let ?d1 = "if length ?cop = 1 then set_ParentBoundary doc b (Some (?cop ! 0)) else doc"
    from Cons.prems True obtain he where he: "?h1 = Some he"
      and rest: "hosting_loop (append_InnerBoundaries ?d1 he b) ?h1 bs = Inr (doc', h')"
      by (simp add: Let_def split: option.splits)
    from rest have "resolves (append_InnerBoundaries ?d1 he b) doc'" by (rule Cons.IH)
    moreover have "resolves doc ?d1"
      by (simp add: resolves_refl resolves_set_ParentBoundary)
    ultimately show ?thesis
      by (blast intro: resolves_trans resolves_append_InnerBoundaries)
  qed
qed

lemma associate_hosted_space_resolves:
  "associate_hosted_space isC doc h g = Inr (doc', h') \<Longrightarrow> resolves doc doc'"
  unfolding associate_hosted_space_def Let_def py_assert_def truth_value_of_class_def
  by (auto split: if_splits sum.splits simp: resolves_refl
      dest!: coplanar_loop_resolves hosting_loop_resolves intro: resolves_trans)

lemma sum_is_Inr: "\<not> isl r \<Longrightarrow> r = Inr (projr r)"
  by (cases r) auto

lemma sum_is_Inr_pair: "\<not> isl r \<Longrightarrow> r = Inr (fst (projr r), snd (projr r))"
  by (cases r) auto

lemma sum_is_Inl_pair: "isl r \<Longrightarrow> r = Inl (fst (projl r), snd (projl r))"
  by (cases r) auto

lemmas hosted_pass_defs =
  associate_hosted_elements_def associate_hosted_space_def
  new_document_def fresh_boundary_def face_def is_coplanar_def get_plane_def
  planes_coincide_def py_assert_def truth_value_of_class_def
  append_CoplanarWith_def set_CoplanarWith_def onChanged_def
  append_InnerBoundaries_def set_InnerBoundaries_def set_ParentBoundary_def
  recompute_area_with_hosted_def Let_def

lemmas matcher_pass_defs =
  associate_corresponding_boundaries_def associate_corresponding_boundary_def
  clean_corresponding_candidates_def set_CorrespondingBoundary_def

text \<open>
  C2 does not hold of the code: the \<open>append\<close> of line 106 is outside the \<open>if\<close> of line
  103, so a hosted boundary whose \<open>CoplanarWith\<close> list has two entries is appended to the
  \<open>InnerBoundaries\<close> of whatever \<open>host_element\<close> was bound to before. In the document
  \<open>hosting_example\<close> the window 4 ends with the two coplanar boundaries 2 and 3 and with
  no \<open>ParentBoundary\<close>, and yet it is appended to the \<open>InnerBoundaries\<close> of boundary 0,
  the host of the door 1, which lies in another plane.
\<close>

theorem C2_ambiguous_host_still_appended:
  "\<not> isl (associate_hosted_elements planes_coincide hosting_example)
   \<and> IsHosted (boundaries hosting_example 4)
   \<and> CoplanarWith
        (boundaries (projr (associate_hosted_elements planes_coincide hosting_example)) 4)
       = [2, 3]
   \<and> ParentBoundary
        (boundaries (projr (associate_hosted_elements planes_coincide hosting_example)) 4)
       = None
   \<and> InnerBoundaries
        (boundaries (projr (associate_hosted_elements planes_coincide hosting_example)) 0)
       = [1, 4]"
  by (simp add: hosting_example_def hosted_pass_defs)

text \<open>
  C5, as stated, fails for a space with exactly five boundaries, which line 88 skips:
  in \<open>five_boundaries\<close> the boundaries 0 and 1 are coplanar, the pass over the space and
  the pass over the document return the document as it was, and the \<open>CoplanarWith\<close>
  lists of 0 and 1 are empty.
\<close>

theorem C5_five_boundaries_counterexample:
  "length (Group five_boundaries 20) = 5
   \<and> is_coplanar planes_coincide five_boundaries 0 1 = Inr True
   \<and> associate_hosted_space planes_coincide five_boundaries None 20
       = Inr (five_boundaries, None)
   \<and> associate_hosted_elements planes_coincide five_boundaries = Inr five_boundaries
   \<and> CoplanarWith (boundaries five_boundaries 0) = []
   \<and> CoplanarWith (boundaries five_boundaries 1) = []"
  by (simp add: five_boundaries_def hosted_pass_defs)

text \<open>
  C5, amended: a space with exactly 5 boundaries is skipped by the pass over the space
  (lines 85-117): the pass returns the document as it was, so none of the space's pairs
  is registered by it. For every space whose number of boundaries is not 5, and for
  every two positions \<open>i < j\<close> of its boundary list whose boundaries the coplanarity test
  accepts, when the pass over the space returns, each of the two boundaries is a member
  of the other's \<open>CoplanarWith\<close> list.
\<close>

theorem C5_coplanar_pairs_registered:
  "(length (Group doc space_group) = 5 \<longrightarrow>
      associate_hosted_space isCoplanar doc host_element space_group = Inr (doc, host_element))
   \<and> (length (Group doc space_group) \<noteq> 5 \<longrightarrow>
      associate_hosted_space isCoplanar doc host_element space_group
        = Inr (doc', host_element') \<longrightarrow>
      i < j \<longrightarrow> j < length (Group doc space_group) \<longrightarrow>
      is_coplanar isCoplanar doc (Group doc space_group ! i) (Group doc space_group ! j)
        = Inr True \<longrightarrow>
      Group doc space_group ! j
          \<in> set (CoplanarWith (boundaries doc' (Group doc space_group ! i)))
      \<and> Group doc space_group ! i
          \<in> set (CoplanarWith (boundaries doc' (Group doc space_group ! j))))"
proof (intro conjI impI)
  assume "length (Group doc space_group) = 5"
  then show "associate_hosted_space isCoplanar doc host_element space_group
               = Inr (doc, host_element)"
    by (simp add: associate_hosted_space_def)
next
  let ?xs = "Group doc space_group"
  assume not5: "length ?xs \<noteq> 5"
     and run: "associate_hosted_space isCoplanar doc host_element space_group
                 = Inr (doc', host_element')"
     and ij: "i < j" "j < length ?xs"
     and cop: "is_coplanar isCoplanar doc (?xs ! i) (?xs ! j) = Inr True"
  from run not5 obtain doc1 where
    loop: "coplanar_loop isCoplanar doc (combinations ?xs) = Inr doc1"
    and host: "hosting_loop doc1 host_element ?xs = Inr (doc', host_element')"
    unfolding associate_hosted_space_def Let_def py_assert_def truth_value_of_class_def
    by (auto split: if_splits sum.splits)
  have "(?xs ! i, ?xs ! j) \<in> set (combinations ?xs)"
    using ij by (rule combinations_nth)
  with loop have "?xs ! j \<in> set (CoplanarWith (boundaries doc1 (?xs ! i)))
       \<and> ?xs ! i \<in> set (CoplanarWith (boundaries doc1 (?xs ! j)))"
    using cop by (rule coplanar_loop_registers)
  moreover from host have "resolves doc1 doc'" by (rule hosting_loop_resolves)
  ultimately have both: "?xs ! j \<in> set (CoplanarWith (boundaries doc' (?xs ! i)))
       \<and> ?xs ! i \<in> set (CoplanarWith (boundaries doc' (?xs ! j)))"
    unfolding resolves_def by blast
  from both show "?xs ! j \<in> set (CoplanarWith (boundaries doc' (?xs ! i)))" ..
  from both show "?xs ! i \<in> set (CoplanarWith (boundaries doc' (?xs ! j)))" ..
qed

text \<open>
  The space of \<open>five_boundaries\<close> is skipped, with whatever host is bound at the time; in
  \<open>hosting_example\<close>, a space with six boundaries, the coplanar boundaries 2 and 3
  (positions 2 and 3) are registered with each other.
\<close>

theorem C5_coplanar_pairs_registered_witness:
  "associate_hosted_space planes_coincide five_boundaries (Some 3) 20
     = Inr (five_boundaries, Some 3)
   \<and> 3 \<in> set (CoplanarWith (boundaries
       (fst (projr (associate_hosted_space planes_coincide hosting_example None 20))) 2))
   \<and> 2 \<in> set (CoplanarWith (boundaries
       (fst (projr (associate_hosted_space planes_coincide hosting_example None 20))) 3))"
proof -
  have five: "length (Group five_boundaries 20) = 5"
    by (simp add: five_boundaries_def new_document_def)
  have skipped: "associate_hosted_space planes_coincide five_boundaries (Some 3) 20
      = Inr (five_boundaries, Some 3)"
    using C5_coplanar_pairs_registered
            [of five_boundaries 20 planes_coincide "Some 3" five_boundaries None 0 0] five
    by blast
  have run: "associate_hosted_space planes_coincide hosting_example None 20
      = Inr (fst (projr (associate_hosted_space planes_coincide hosting_example None 20)),
             snd (projr (associate_hosted_space planes_coincide hosting_example None 20)))"
    by (rule sum_is_Inr_pair) (simp add: hosting_example_def hosted_pass_defs)
  have grp: "Group hosting_example 20 = [0, 1, 2, 3, 4, 5]"
    by (simp add: hosting_example_def new_document_def)
  have cop: "is_coplanar planes_coincide hosting_example 2 3 = Inr True"
    by (simp add: hosting_example_def hosted_pass_defs)
  have registered: "3 \<in> set (CoplanarWith (boundaries
       (fst (projr (associate_hosted_space planes_coincide hosting_example None 20))) 2))
   \<and> 2 \<in> set (CoplanarWith (boundaries
       (fst (projr (associate_hosted_space planes_coincide hosting_example None 20))) 3))"
    using C5_coplanar_pairs_registered
            [of hosting_example 20 planes_coincide None
                "fst (projr (associate_hosted_space planes_coincide hosting_example None 20))"
                "snd (projr (associate_hosted_space planes_coincide hosting_example None 20))"
                2 3]
          run cop
    by (simp add: grp)
  from skipped registered show ?thesis by (rule conjI)
qed

text \<open>
  C6 does not hold of the code: line 91 asserts the class \<open>ValueError\<close> instead of raising
  it, and the assertion of a class object never fails. For the space of
  \<open>three_boundaries\<close>, which has three boundaries, the pass returns normally with the
  document it was given: nothing is raised, printed or recorded.
\<close>

theorem C6_fewer_than_five_not_reported:
  "length (Group three_boundaries 20) = 3
   \<and> associate_hosted_space planes_coincide three_boundaries None 20
       = Inr (three_boundaries, None)
   \<and> associate_hosted_elements planes_coincide three_boundaries = Inr three_boundaries
   \<and> console three_boundaries = []"
  by (simp add: three_boundaries_def hosted_pass_defs)

section \<open>Failure of the construction tiers: the claim\<close>

lemma generate_space_boundaries_append:
  "generate_space_boundaries k doc g (pre @ post) =
     (case generate_space_boundaries k doc g pre of
        Inl x \<Rightarrow> Inl x
      | Inr doc1 \<Rightarrow> generate_space_boundaries k doc1 g post)"
  by (induction pre arbitrary: doc)
     (auto split: sum.splits prod.splits option.splits simp: Let_def)

lemma generate_boundaries_append:
  "generate_boundaries k doc (pre @ post) =
     (case generate_boundaries k doc pre of
        Inl x \<Rightarrow> Inl x
      | Inr doc1 \<Rightarrow> generate_boundaries k doc1 post)"
  by (induction pre arbitrary: doc) (auto split: sum.splits simp: Let_def)

lemma wires_then_mesh_fail:
  "part_by_wires k s = Inl RuntimeError \<Longrightarrow> part_by_mesh k s = Inl e
   \<Longrightarrow> wires_then_mesh k doc s = Inl (e, print doc ''Failed to generate mesh from'')"
  by (simp add: wires_then_mesh_def)

text \<open>
  Whatever the value of \<open>BREP\<close>: when every tier that is attempted fails, the exception
  of the mesh tier leaves \<open>create_fc_shape\<close>.
\<close>

lemma create_fc_shape_all_tiers_fail:
  assumes "brep \<Longrightarrow> part_by_brep k (SurfaceOnRelatingElement sb) = Inl RuntimeError"
      and "part_by_wires k (SurfaceOnRelatingElement sb) = Inl RuntimeError"
      and "part_by_mesh k (SurfaceOnRelatingElement sb) = Inl e"
  shows "create_fc_shape brep k doc sb =
           Inl (e, print (if brep then print doc ''Failed to generate brep from'' else doc)
                     ''Failed to generate mesh from'')"
  using assms by (simp add: create_fc_shape_def wires_then_mesh_fail)

lemma generate_space_boundaries_fail:
  assumes "generate_space_boundaries k doc space_group before = Inr doc1"
      and "Name b = ''2ndLevel''"
      and "ifc_RelatedBuildingElement b = Some related"
      and "part_by_wires k (SurfaceOnRelatingElement b) = Inl RuntimeError"
      and "part_by_mesh k (SurfaceOnRelatingElement b) = Inl e"
  shows "generate_space_boundaries k doc space_group (before @ b # after) =
           Inl (e, print (snd (get_color (doc1\<lparr>object_count := Suc (object_count doc1)\<rparr>) related))
                     ''Failed to generate mesh from'')"
  using assms
  by (simp add: generate_space_boundaries_append make_relspaceboundary_def BREP_def
      create_fc_shape_all_tiers_fail)

lemmas generate_defs =
  display_boundaries_def example_file_def second_level_def wall_entity_def window_entity_def
  column_entity_def example_kernel_def make_relspaceboundary_def create_fc_shape_def
  wires_then_mesh_def BREP_def print_def get_related_element_def
  append_ProvidesBoundaries_def get_color_def product_colors_def is_a_def
  new_document_def fresh_boundary_def face_def Let_def

text \<open>
  C7, as stated, fails: nothing in the module catches the exception of the last tier.
  With a file of one space whose first boundary has the surface on which the tiers fail,
  \<open>display_boundaries\<close> ends with \<open>RuntimeError\<close>; the space group (object 3) has no
  member, so the second boundary was never processed, and the only text printed is the
  one of the wire tier's handler.
\<close>

theorem C7_failure_aborts_run_counterexample:
  "isl (display_boundaries example_kernel planes_coincide
          (example_file [[second_level wall_entity EXTERNAL 1, second_level wall_entity EXTERNAL 20]])
          new_document)
   \<and> fst (projl (display_boundaries example_kernel planes_coincide
          (example_file [[second_level wall_entity EXTERNAL 1, second_level wall_entity EXTERNAL 20]])
          new_document)) = RuntimeError
   \<and> group_2nd (snd (projl (display_boundaries example_kernel planes_coincide
          (example_file [[second_level wall_entity EXTERNAL 1, second_level wall_entity EXTERNAL 20]])
          new_document))) = [3]
   \<and> Group (snd (projl (display_boundaries example_kernel planes_coincide
          (example_file [[second_level wall_entity EXTERNAL 1, second_level wall_entity EXTERNAL 20]])
          new_document))) 3 = []
   \<and> console (snd (projl (display_boundaries example_kernel planes_coincide
          (example_file [[second_level wall_entity EXTERNAL 1, second_level wall_entity EXTERNAL 20]])
          new_document))) = [''Failed to generate mesh from'']"
  by (simp add: generate_defs)

text \<open>
  C7, amended: the exact tier is not attempted (\<open>BREP\<close> is false). If, for a second-level
  boundary with an element, the wire tier raises \<open>RuntimeError\<close> and the mesh tier raises
  an exception \<open>e\<close>, then the text of the wire tier's handler is printed (after the text
  of \<open>get_color\<close>, when the class of the element has no colour) and \<open>e\<close> leaves
  \<open>create_fc_shape\<close>, the loop over the boundaries, the loop over the spaces and
  \<open>display_boundaries\<close>: the run aborts with \<open>e\<close>, whatever boundaries and spaces come
  after, and neither the matcher nor the coplanarity and hosting pass runs. The document
  of the exception is the one that the spaces and boundaries before the failing one
  produced (\<open>doc1\<close>), with one more object and the printed texts.
\<close>

theorem C7_tier_failure_propagates:
  assumes "IfcSpace file = spaces_before @ space # spaces_after"
      and "BoundedBy space = before @ b # after"
      and "generate_boundaries k (generate_elements doc (IfcElement file))
             (spaces_before @ [space\<lparr>BoundedBy := before\<rparr>]) = Inr doc1"
      and "Name b = ''2ndLevel''"
      and "ifc_RelatedBuildingElement b = Some related"
      and "part_by_wires k (SurfaceOnRelatingElement b) = Inl RuntimeError"
      and "part_by_mesh k (SurfaceOnRelatingElement b) = Inl e"
  shows "generate_boundaries k (generate_elements doc (IfcElement file)) (IfcSpace file)
           = Inl (e, print (snd (get_color (doc1\<lparr>object_count := Suc (object_count doc1)\<rparr>)
                                   related))
                       ''Failed to generate mesh from'')
       \<and> display_boundaries k isCoplanar file doc
           = Inl (e, print (snd (get_color (doc1\<lparr>object_count := Suc (object_count doc1)\<rparr>)
                                   related))
                       ''Failed to generate mesh from'')"
proof -
  let ?d0 = "generate_elements doc (IfcElement file)"
  from assms(3) obtain dA where
    pre: "generate_boundaries k ?d0 spaces_before = Inr dA"
    and last: "generate_boundaries k dA [space\<lparr>BoundedBy := before\<rparr>] = Inr doc1"
    by (auto simp: generate_boundaries_append split: sum.splits)
  let ?g = "object_count dA"
  let ?dB = "dA\<lparr>object_count := Suc ?g, Group := (Group dA)(?g := []),
                  group_2nd := group_2nd dA @ [?g]\<rparr>"
  from last have "generate_space_boundaries k ?dB ?g before = Inr doc1"
    by (auto simp: Let_def split: sum.splits)
  then have "generate_space_boundaries k ?dB ?g (before @ b # after)
      = Inl (e, print (snd (get_color (doc1\<lparr>object_count := Suc (object_count doc1)\<rparr>) related))
                  ''Failed to generate mesh from'')"
    using assms(4-7) by (rule generate_space_boundaries_fail)
  then have "generate_boundaries k dA (space # spaces_after)
      = Inl (e, print (snd (get_color (doc1\<lparr>object_count := Suc (object_count doc1)\<rparr>) related))
                  ''Failed to generate mesh from'')"
    using assms(2) by (simp add: Let_def)
  with pre have "generate_boundaries k ?d0 (IfcSpace file)
      = Inl (e, print (snd (get_color (doc1\<lparr>object_count := Suc (object_count doc1)\<rparr>) related))
                  ''Failed to generate mesh from'')"
    by (simp add: assms(1) generate_boundaries_append)
  then show ?thesis
    by (simp add: display_boundaries_def)
qed

text \<open>
  In \<open>aborted_file\<close> the first space and the first boundary of the second space are
  built, the column's boundary fails in both tiers, and the run ends there: two texts
  were printed, the second space group (object 5) holds one boundary, and there is no
  third group.
\<close>

theorem C7_tier_failure_propagates_witness:
  "display_boundaries example_kernel planes_coincide aborted_file new_document
     = Inl (RuntimeError,
         print (snd (get_color
             ((projr (generate_boundaries example_kernel
                  (generate_elements new_document (IfcElement aborted_file)) aborted_prefix))
                \<lparr>object_count := Suc (object_count
                    (projr (generate_boundaries example_kernel
                       (generate_elements new_document (IfcElement aborted_file))
                       aborted_prefix)))\<rparr>)
             column_entity))
           ''Failed to generate mesh from'')
   \<and> console (document_of (display_boundaries example_kernel planes_coincide aborted_file
        new_document))
       = [''No color found for IfcColumn'', ''Failed to generate mesh from'']
   \<and> group_2nd (document_of (display_boundaries example_kernel planes_coincide aborted_file
        new_document)) = [3, 5]
   \<and> Group (document_of (display_boundaries example_kernel planes_coincide aborted_file
        new_document)) 5 = [6]"
proof -
  let ?d0 = "generate_elements new_document (IfcElement aborted_file)"
  have prefix: "generate_boundaries example_kernel ?d0 aborted_prefix
      = Inr (projr (generate_boundaries example_kernel ?d0 aborted_prefix))"
    by (rule sum_is_Inr) (simp add: aborted_file_def aborted_prefix_def generate_defs)
  have "[\<lparr>BoundedBy = [second_level wall_entity EXTERNAL 20]\<rparr>]
          @ [\<lparr>BoundedBy = [second_level wall_entity EXTERNAL 30,
                 second_level column_entity EXTERNAL 1, second_level wall_entity EXTERNAL 40]\<rparr>
               \<lparr>BoundedBy := [second_level wall_entity EXTERNAL 30]\<rparr>]
        = aborted_prefix"
    by (simp add: aborted_prefix_def)
  with prefix have first: "generate_boundaries example_kernel ?d0
        ([\<lparr>BoundedBy = [second_level wall_entity EXTERNAL 20]\<rparr>]
          @ [\<lparr>BoundedBy = [second_level wall_entity EXTERNAL 30,
                 second_level column_entity EXTERNAL 1, second_level wall_entity EXTERNAL 40]\<rparr>
               \<lparr>BoundedBy := [second_level wall_entity EXTERNAL 30]\<rparr>])
      = Inr (projr (generate_boundaries example_kernel ?d0 aborted_prefix))"
    by (simp only:)
  have spaces: "IfcSpace aborted_file
      = [\<lparr>BoundedBy = [second_level wall_entity EXTERNAL 20]\<rparr>]
        @ \<lparr>BoundedBy = [second_level wall_entity EXTERNAL 30,
              second_level column_entity EXTERNAL 1, second_level wall_entity EXTERNAL 40]\<rparr>
        # [\<lparr>BoundedBy = [second_level wall_entity EXTERNAL 50]\<rparr>]"
    by (simp add: aborted_file_def example_file_def)
  have bounded: "BoundedBy \<lparr>BoundedBy = [second_level wall_entity EXTERNAL 30,
              second_level column_entity EXTERNAL 1, second_level wall_entity EXTERNAL 40]\<rparr>
      = [second_level wall_entity EXTERNAL 30] @ second_level column_entity EXTERNAL 1
        # [second_level wall_entity EXTERNAL 40]"
    by simp
  have name: "Name (second_level column_entity EXTERNAL 1) = ''2ndLevel''"
    by (simp add: second_level_def)
  have related: "ifc_RelatedBuildingElement (second_level column_entity EXTERNAL 1)
      = Some column_entity"
    by (simp add: second_level_def)
  have wires: "part_by_wires example_kernel
      (SurfaceOnRelatingElement (second_level column_entity EXTERNAL 1)) = Inl RuntimeError"
    by (simp add: second_level_def example_kernel_def)
  have mesh: "part_by_mesh example_kernel
      (SurfaceOnRelatingElement (second_level column_entity EXTERNAL 1)) = Inl RuntimeError"
    by (simp add: second_level_def example_kernel_def)
  have run: "display_boundaries example_kernel planes_coincide aborted_file new_document
     = Inl (RuntimeError,
         print (snd (get_color
             ((projr (generate_boundaries example_kernel ?d0 aborted_prefix))
                \<lparr>object_count := Suc (object_count
                    (projr (generate_boundaries example_kernel ?d0 aborted_prefix)))\<rparr>)
             column_entity))
           ''Failed to generate mesh from'')"
    using C7_tier_failure_propagates [OF spaces bounded first name related wires mesh] by (rule conjunct2)
  have rest: "console (document_of (display_boundaries example_kernel planes_coincide aborted_file
        new_document))
       = [''No color found for IfcColumn'', ''Failed to generate mesh from'']
   \<and> group_2nd (document_of (display_boundaries example_kernel planes_coincide aborted_file
        new_document)) = [3, 5]
   \<and> Group (document_of (display_boundaries example_kernel planes_coincide aborted_file
        new_document)) 5 = [6]"
    by (simp add: aborted_file_def document_of_def generate_defs)
  from run rest show ?thesis by (rule conjI)
qed


section \<open>The order of the two passes: the claim\<close>

lemma pairs_only_refl: "pairs_only doc doc"
  by (simp add: pairs_only_def)

lemma pairs_only_trans: "pairs_only a b \<Longrightarrow> pairs_only b c \<Longrightarrow> pairs_only a c"
  by (simp add: pairs_only_def)

lemma associate_corresponding_boundary_pairs_only:
  "pairs_only doc (document_of (associate_corresponding_boundary doc b))"
  by (auto simp: associate_corresponding_boundary_def pairs_only_def document_of_def
      set_CorrespondingBoundary_eq Let_def split: sum.splits option.splits)

lemma associate_group_pairs_only:
  "pairs_only doc (document_of (associate_group doc bs))"
proof (induction bs arbitrary: doc)
  case Nil
  show ?case by (simp add: pairs_only_refl document_of_def)
next
  case (Cons b bs)
  have step: "pairs_only doc (document_of (associate_corresponding_boundary doc b))"
    by (rule associate_corresponding_boundary_pairs_only)
  show ?case
  proof (cases "associate_corresponding_boundary doc b")
    case (Inl x)
    with step show ?thesis by simp
  next
    case (Inr d1)
    with step have "pairs_only doc d1" by (simp add: document_of_def)
    moreover have "pairs_only d1 (document_of (associate_group d1 bs))" by (rule Cons.IH)
    ultimately show ?thesis using Inr by (simp add: pairs_only_trans)
  qed
qed

lemma associate_groups_pairs_only:
  "pairs_only doc (document_of (associate_groups doc gs))"
proof (induction gs arbitrary: doc)
  case Nil
  show ?case by (simp add: pairs_only_refl document_of_def)
next
  case (Cons g gs)
  have step: "pairs_only doc (document_of (associate_group doc (Group doc g)))"
    by (rule associate_group_pairs_only)
  show ?case
  proof (cases "associate_group doc (Group doc g)")
    case (Inl x)
    with step show ?thesis by simp
  next
    case (Inr d1)
    with step have "pairs_only doc d1" by (simp add: document_of_def)
    moreover have "pairs_only d1 (document_of (associate_groups d1 gs))" by (rule Cons.IH)
    ultimately show ?thesis using Inr by (simp add: pairs_only_trans)
  qed
qed

lemma coplanar_loop_resolves_any:
  "resolves doc (document_of (coplanar_loop isC doc ps))"
proof (induction ps arbitrary: doc)
  case Nil
  show ?case by (simp add: resolves_refl document_of_def)
next
  case (Cons p ps)
  obtain a b where p: "p = (a, b)" by (cases p)
  let ?d = "append_CoplanarWith (append_CoplanarWith doc a b) b a"
  have step: "resolves doc ?d"
    by (blast intro: resolves_trans resolves_append_CoplanarWith)
  have "resolves ?d (document_of (coplanar_loop isC ?d ps))" by (rule Cons.IH)
  with step have appended: "resolves doc (document_of (coplanar_loop isC ?d ps))"
    by (rule resolves_trans)
  have same: "resolves doc (document_of (coplanar_loop isC doc ps))" by (rule Cons.IH)
  show ?case
    using appended same
    by (auto simp: p document_of_def resolves_refl split: sum.splits)
qed

lemma hosting_loop_resolves_any:
  "resolves doc (document_of (map_sum id fst (hosting_loop doc h bs)))"
proof (induction bs arbitrary: doc h)
  case Nil
  show ?case by (simp add: resolves_refl document_of_def)
next
  case (Cons b bs)
  show ?case
  proof (cases "IsHosted (boundaries doc b)")
    case False
    then have "hosting_loop doc h (b # bs) = hosting_loop doc h bs"
      by (simp add: Let_def)
    then show ?thesis by (simp only: Cons.IH)
  next
    case True
    let ?cop = "CoplanarWith (boundaries doc b)"
    let ?h1 = "if length ?cop = 1 then Some (?cop ! 0) else h"
    let ?d1 = "if length ?cop = 1 then set_ParentBoundary doc b (Some (?cop ! 0)) else doc"
    have d1: "resolves doc ?d1"
      by (simp add: resolves_refl resolves_set_ParentBoundary)
    show ?thesis
    proof (cases ?h1)
      case None
      with True have "hosting_loop doc h (b # bs) = Inl (UnboundLocalError, ?d1)"
        by (simp add: Let_def)
      with d1 show ?thesis by (simp add: document_of_def)
    next
      case (Some he)
      with True have "hosting_loop doc h (b # bs)
          = hosting_loop (append_InnerBoundaries ?d1 he b) ?h1 bs"
        by (simp add: Let_def)
      moreover have "resolves (append_InnerBoundaries ?d1 he b)
          (document_of (map_sum id fst (hosting_loop (append_InnerBoundaries ?d1 he b) ?h1 bs)))"
        by (rule Cons.IH)
      moreover have "resolves doc (append_InnerBoundaries ?d1 he b)"
        using d1 by (blast intro: resolves_trans resolves_append_InnerBoundaries)
      ultimately show ?thesis by (simp only: resolves_trans)
    qed
  qed
qed

lemma associate_hosted_space_resolves_any:
  "resolves doc (document_of (map_sum id fst (associate_hosted_space isC doc h g)))"
proof -
  let ?xs = "Group doc g"
  have loop: "resolves doc (document_of (coplanar_loop isC doc (combinations ?xs)))"
    by (rule coplanar_loop_resolves_any)
  show ?thesis
  proof (cases "coplanar_loop isC doc (combinations ?xs)")
    case (Inl x)
    with loop show ?thesis
      by (auto simp: associate_hosted_space_def Let_def py_assert_def truth_value_of_class_def
          document_of_def resolves_refl)
  next
    case (Inr d1)
    with loop have "resolves doc d1" by (simp add: document_of_def)
    moreover have "resolves d1 (document_of (map_sum id fst (hosting_loop d1 h ?xs)))"
      by (rule hosting_loop_resolves_any)
    ultimately have "resolves doc (document_of (map_sum id fst (hosting_loop d1 h ?xs)))"
      by (rule resolves_trans)
    with Inr show ?thesis
      by (auto simp: associate_hosted_space_def Let_def py_assert_def truth_value_of_class_def
          document_of_def resolves_refl)
  qed
qed

lemma associate_hosted_spaces_resolves_any:
  "resolves doc (document_of (map_sum id fst (associate_hosted_spaces isC doc h gs)))"
proof (induction gs arbitrary: doc h)
  case Nil
  show ?case by (simp add: resolves_refl document_of_def)
next
  case (Cons g gs)
  have step: "resolves doc (document_of (map_sum id fst (associate_hosted_space isC doc h g)))"
    by (rule associate_hosted_space_resolves_any)
  show ?case
  proof (cases "associate_hosted_space isC doc h g")
    case (Inl x)
    with step show ?thesis by simp
  next
    case (Inr r)
    obtain d1 h1 where r: "r = (d1, h1)" by (cases r)
    with Inr step have "resolves doc d1" by (simp add: document_of_def)
    moreover have "resolves d1
        (document_of (map_sum id fst (associate_hosted_spaces isC d1 h1 gs)))"
      by (rule Cons.IH)
    ultimately have "resolves doc
        (document_of (map_sum id fst (associate_hosted_spaces isC d1 h1 gs)))"
      by (rule resolves_trans)
    then show ?thesis using Inr r by (simp add: id_def)
  qed
qed

lemma associate_hosted_elements_resolves_any:
  "resolves doc (document_of (associate_hosted_elements isC doc))"
proof -
  have "associate_hosted_elements isC doc
      = map_sum id fst (associate_hosted_spaces isC doc None (group_2nd doc))"
    by (simp add: associate_hosted_elements_def split: sum.splits)
  then show ?thesis by (simp only: associate_hosted_spaces_resolves_any)
qed

text \<open>
  C8, as stated, fails: the matcher runs before the coplanarity and hosting pass of any
  space, which shows in the document that an exception leaves behind. With
  \<open>pending_file\<close> the run ends with \<open>UnboundLocalError\<close>, raised by the hosting pass of the
  first space, which never completes (the pass raises on the created document as well);
  yet in the document of the exception the boundaries 4 and 7 are linked to each other.
  With \<open>unmatched_file\<close> the run ends with the \<open>UnboundLocalError\<close> of the matcher on
  boundary 4, and in the document of the exception the \<open>CoplanarWith\<close> list of 4 is
  empty although 4 and 5 are coplanar: no coplanarity had been resolved when the matcher
  processed the boundary.
\<close>

theorem C8_matcher_runs_first_counterexample:
  "isl (display_boundaries example_kernel planes_coincide pending_file new_document)
   \<and> fst (projl (display_boundaries example_kernel planes_coincide pending_file new_document))
       = UnboundLocalError
   \<and> CorrespondingBoundary (boundaries
        (snd (projl (display_boundaries example_kernel planes_coincide pending_file
           new_document))) 4) = Some 7
   \<and> CorrespondingBoundary (boundaries
        (snd (projl (display_boundaries example_kernel planes_coincide pending_file
           new_document))) 7) = Some 4
   \<and> isl (associate_hosted_elements planes_coincide (created pending_file))
   \<and> isl (display_boundaries example_kernel planes_coincide unmatched_file new_document)
   \<and> fst (projl (display_boundaries example_kernel planes_coincide unmatched_file
           new_document)) = UnboundLocalError
   \<and> CoplanarWith (boundaries
        (snd (projl (display_boundaries example_kernel planes_coincide unmatched_file
           new_document))) 4) = []
   \<and> is_coplanar planes_coincide
        (snd (projl (display_boundaries example_kernel planes_coincide unmatched_file
           new_document))) 4 5 = Inr True"
  by (simp add: pending_file_def unmatched_file_def created_def generate_defs
      hosted_pass_defs matcher_pass_defs)

text \<open>
  C8, amended: in the pipeline the corresponding-boundary matcher processes every
  boundary of every space, once all boundaries of all spaces are created (\<open>doc0\<close>),
  before the coplanarity and hosting pass of any space starts. If the matcher raises,
  the run ends with that exception and with the document the matcher left, in which the
  fields \<open>CoplanarWith\<close>, \<open>ParentBoundary\<close> and \<open>InnerBoundaries\<close> of every boundary are
  what they were after creation: no space has been resolved. If the matcher returns
  (\<open>doc1\<close>), these fields are still what they were after creation, the run continues
  with the coplanarity and hosting pass on \<open>doc1\<close> and ends as that pass ends, and
  whether the pass returns or raises, the document it leaves has every
  \<open>CorrespondingBoundary\<close> as the matcher set it.
\<close>

theorem C8_matcher_before_topology:
  assumes "generate_boundaries k (generate_elements doc (IfcElement file)) (IfcSpace file)
             = Inr doc0"
  shows "(associate_corresponding_boundaries doc0 = Inl (e, d) \<longrightarrow>
            display_boundaries k isCoplanar file doc = Inl (e, d)
            \<and> (\<forall>b. CoplanarWith (boundaries d b) = CoplanarWith (boundaries doc0 b)
                   \<and> ParentBoundary (boundaries d b) = ParentBoundary (boundaries doc0 b)
                   \<and> InnerBoundaries (boundaries d b) = InnerBoundaries (boundaries doc0 b)))
       \<and> (associate_corresponding_boundaries doc0 = Inr doc1 \<longrightarrow>
            display_boundaries k isCoplanar file doc = associate_hosted_elements isCoplanar doc1
            \<and> (\<forall>b. CoplanarWith (boundaries doc1 b) = CoplanarWith (boundaries doc0 b)
                   \<and> ParentBoundary (boundaries doc1 b) = ParentBoundary (boundaries doc0 b)
                   \<and> InnerBoundaries (boundaries doc1 b) = InnerBoundaries (boundaries doc0 b))
            \<and> (\<forall>b. CorrespondingBoundary
                       (boundaries (document_of (associate_hosted_elements isCoplanar doc1)) b)
                     = CorrespondingBoundary (boundaries doc1 b)))"
proof -
  have matcher: "pairs_only doc0 (document_of (associate_corresponding_boundaries doc0))"
    unfolding associate_corresponding_boundaries_def by (rule associate_groups_pairs_only)
  have topology: "resolves doc1 (document_of (associate_hosted_elements isCoplanar doc1))"
    by (rule associate_hosted_elements_resolves_any)
  show ?thesis
    using assms matcher topology
    by (auto simp: display_boundaries_def document_of_def pairs_only_def resolves_def)
qed

text \<open>
  With \<open>unmatched_file\<close> the matcher raises; with \<open>pending_file\<close> the matcher returns and
  the hosting pass raises.
\<close>

theorem C8_matcher_before_topology_witness:
  "display_boundaries example_kernel planes_coincide unmatched_file new_document
     = Inl (UnboundLocalError,
            snd (projl (associate_corresponding_boundaries (created unmatched_file))))
   \<and> (\<forall>b. CoplanarWith (boundaries
               (snd (projl (associate_corresponding_boundaries (created unmatched_file)))) b)
             = CoplanarWith (boundaries (created unmatched_file) b)
          \<and> ParentBoundary (boundaries
               (snd (projl (associate_corresponding_boundaries (created unmatched_file)))) b)
             = ParentBoundary (boundaries (created unmatched_file) b)
          \<and> InnerBoundaries (boundaries
               (snd (projl (associate_corresponding_boundaries (created unmatched_file)))) b)
             = InnerBoundaries (boundaries (created unmatched_file) b))
   \<and> display_boundaries example_kernel planes_coincide pending_file new_document
     = associate_hosted_elements planes_coincide
         (projr (associate_corresponding_boundaries (created pending_file)))
   \<and> (\<forall>b. CoplanarWith (boundaries
               (projr (associate_corresponding_boundaries (created pending_file))) b)
             = CoplanarWith (boundaries (created pending_file) b)
          \<and> ParentBoundary (boundaries
               (projr (associate_corresponding_boundaries (created pending_file))) b)
             = ParentBoundary (boundaries (created pending_file) b)
          \<and> InnerBoundaries (boundaries
               (projr (associate_corresponding_boundaries (created pending_file))) b)
             = InnerBoundaries (boundaries (created pending_file) b))
   \<and> (\<forall>b. CorrespondingBoundary (boundaries
               (document_of (associate_hosted_elements planes_coincide
                  (projr (associate_corresponding_boundaries (created pending_file))))) b)
             = CorrespondingBoundary (boundaries
                 (projr (associate_corresponding_boundaries (created pending_file))) b))"
proof -
  have gen_u: "generate_boundaries example_kernel
      (generate_elements new_document (IfcElement unmatched_file)) (IfcSpace unmatched_file)
      = Inr (created unmatched_file)"
    unfolding created_def
    by (rule sum_is_Inr) (simp add: unmatched_file_def generate_defs)
  have "associate_corresponding_boundaries (created unmatched_file)
      = Inl (fst (projl (associate_corresponding_boundaries (created unmatched_file))),
             snd (projl (associate_corresponding_boundaries (created unmatched_file))))"
    by (rule sum_is_Inl_pair)
       (simp add: created_def unmatched_file_def generate_defs matcher_pass_defs onChanged_def)
  moreover have "fst (projl (associate_corresponding_boundaries (created unmatched_file)))
      = UnboundLocalError"
    by (simp add: created_def unmatched_file_def generate_defs matcher_pass_defs onChanged_def)
  ultimately have raised: "associate_corresponding_boundaries (created unmatched_file)
      = Inl (UnboundLocalError,
             snd (projl (associate_corresponding_boundaries (created unmatched_file))))"
    by simp
  have gen_p: "generate_boundaries example_kernel
      (generate_elements new_document (IfcElement pending_file)) (IfcSpace pending_file)
      = Inr (created pending_file)"
    unfolding created_def
    by (rule sum_is_Inr) (simp add: pending_file_def generate_defs)
  have returned: "associate_corresponding_boundaries (created pending_file)
      = Inr (projr (associate_corresponding_boundaries (created pending_file)))"
    by (rule sum_is_Inr)
       (simp add: created_def pending_file_def generate_defs matcher_pass_defs onChanged_def)
  show ?thesis
    using C8_matcher_before_topology [OF gen_u, of UnboundLocalError
                "snd (projl (associate_corresponding_boundaries (created unmatched_file)))"
                planes_coincide]
          C8_matcher_before_topology [OF gen_p, of _ _ planes_coincide
                "projr (associate_corresponding_boundaries (created pending_file))"]
          raised returned
    by blast
qed

section \<open>Claims about the placement matrix\<close>

lemma vector_components: "(vx v, vy v, vz v) = v"
  by (cases v) simp

text \<open>
  C9, as stated: the derived basis vector of the tier-2 transform is the cross product
  reference \<open>\<times>\<close> axis. With reference \<open>(1, 0, 0)\<close> and axis \<open>(0, 0, 1)\<close> the matrix built
  by \<open>get_matrix\<close> has \<open>(0, 1, 0)\<close> as its derived column, whereas reference \<open>\<times>\<close> axis is
  \<open>(0, -1, 0)\<close>, which is no column of the matrix.
\<close>

theorem C9_reference_cross_axis_counterexample:
  "get_matrix \<lparr>Location = (0, 0, 0), Axis = Some (0, 0, 1), RefDirection = Some (1, 0, 0)\<rparr>
     = Inr (Matrix 1 0 0 0
                   0 1 0 0
                   0 0 1 0
                   0 0 0 1)
   \<and> cross (1, 0, 0) (0, 0, 1) = (0, -1, 0)
   \<and> cross (0, 0, 1) (1, 0, 0) = (0, 1, 0)
   \<and> column (Matrix 1 0 0 0  0 1 0 0  0 0 1 0  0 0 0 1) 0 \<noteq> cross (1, 0, 0) (0, 0, 1)
   \<and> column (Matrix 1 0 0 0  0 1 0 0  0 0 1 0  0 0 0 1) 1 \<noteq> cross (1, 0, 0) (0, 0, 1)
   \<and> column (Matrix 1 0 0 0  0 1 0 0  0 0 1 0  0 0 0 1) 2 \<noteq> cross (1, 0, 0) (0, 0, 1)"
  by (simp add: get_matrix_def SCALE_def)

text \<open>
  C9, amended: when the surface's basis gives both a reference direction \<open>r\<close> and an axis
  direction \<open>a\<close>, \<open>get_matrix\<close> returns a matrix whose columns are, in this order, \<open>r\<close>, the
  cross product axis \<open>\<times>\<close> reference (\<open>a.cross(r)\<close>), \<open>a\<close>, and the origin scaled by
  \<open>SCALE\<close> in each component; its last row is \<open>0 0 0 1\<close>.
\<close>

theorem C9_get_matrix_columns:
  assumes "RefDirection p = Some r" and "Axis p = Some a"
  shows "\<exists>m. get_matrix p = Inr m
           \<and> column m 0 = r
           \<and> column m 1 = cross a r
           \<and> column m 2 = a
           \<and> column m 3 = scale (Location p) SCALE SCALE SCALE
           \<and> last_row m = (0, 0, 0, 1)"
  using assms by (simp add: get_matrix_def Let_def vector_components)

theorem C9_get_matrix_columns_witness:
  "\<exists>m. get_matrix \<lparr>Location = (1, 2, 3), Axis = Some (0, 0, 1), RefDirection = Some (1, 0, 0)\<rparr>
          = Inr m
       \<and> column m 0 = (1, 0, 0)
       \<and> column m 1 = (0, 1, 0)
       \<and> column m 2 = (0, 0, 1)
       \<and> column m 3 = (1000, 2000, 3000)
       \<and> last_row m = (0, 0, 0, 1)"
  using C9_get_matrix_columns
    [of "\<lparr>Location = (1, 2, 3), Axis = Some (0, 0, 1), RefDirection = Some (1, 0, 0)\<rparr>"
        "(1, 0, 0)" "(0, 0, 1)"]
  by (simp add: SCALE_def)

end
